theory Spec2Isabelle
  imports Complex_Main "HOL-Library.Log_Nat"
begin

section \<open>JavaScript primitives used by the dashboard and the donation form\<close>

text \<open>
  Strings are character lists. Case folding and trimming are modelled on ASCII.
\<close>

abbreviation DQUOTE :: char where "DQUOTE \<equiv> CHR 0x22"
abbreviation COMMA :: char where "COMMA \<equiv> CHR 0x2C"
abbreviation LF :: char where "LF \<equiv> CHR 0x0A"
abbreviation CR :: char where "CR \<equiv> CHR 0x0D"

subsection \<open>Numbers\<close>

text \<open>
  A JavaScript \<^verbatim>\<open>number\<close> is an IEEE 754 double: a finite value (a rational of the
  form \<open>m * 2 ^ e\<close> with a 53-bit \<open>m\<close>), an infinity or \<^verbatim>\<open>NaN\<close>. The sign of zero is
  not represented: no operation below tells \<^verbatim>\<open>-0\<close> from \<^verbatim>\<open>0\<close>.
\<close>

datatype number = Finite rat | PosInfinity | NegInfinity | NaN

definition pow2 :: "int \<Rightarrow> rat" where
  "pow2 e = (if 0 \<le> e then 2 ^ nat e else 1 / 2 ^ nat (- e))"

text \<open>For \<open>0 < a\<close>, the exponent \<open>e\<close> with \<open>2 ^ e \<le> a < 2 ^ (e + 1)\<close>.\<close>

definition floor_log2 :: "rat \<Rightarrow> int" where
  "floor_log2 a = (if 1 \<le> a then bitlen \<lfloor>a\<rfloor> - 1 else - bitlen (\<lceil>1 / a\<rceil> - 1))"

definition round_half_even :: "rat \<Rightarrow> int" where
  "round_half_even x =
     (let f = \<lfloor>x\<rfloor>; d = x - of_int f
      in if d < 1 / 2 then f else if 1 / 2 < d then f + 1 else if even f then f else f + 1)"

text \<open>
  Rounding of an exact result to the nearest double, ties to the even significand. The
  spacing of the doubles around a value with exponent \<open>e\<close> is \<open>2 ^ (e - 52)\<close>, and
  \<open>2 ^ (- 1074)\<close> in the subnormal range; a result that rounds to \<open>2 ^ 1024\<close> or beyond is
  an infinity.
\<close>

definition round_double :: "rat \<Rightarrow> number" where
  "round_double q =
     (if q = 0 then Finite 0
      else
        let a = \<bar>q\<bar>;
            u = pow2 (max (floor_log2 a - 52) (- 1074));
            r = of_int (round_half_even (a / u)) * u
        in if pow2 1024 \<le> r then (if 0 < q then PosInfinity else NegInfinity)
           else Finite (if 0 < q then r else - r))"

text \<open>\<^verbatim>\<open>x + y\<close> and \<^verbatim>\<open>x * y\<close> on numbers.\<close>

fun js_add :: "number \<Rightarrow> number \<Rightarrow> number" where
  "js_add NaN y = NaN"
| "js_add x NaN = NaN"
| "js_add PosInfinity NegInfinity = NaN"
| "js_add NegInfinity PosInfinity = NaN"
| "js_add PosInfinity y = PosInfinity"
| "js_add NegInfinity y = NegInfinity"
| "js_add x PosInfinity = PosInfinity"
| "js_add x NegInfinity = NegInfinity"
| "js_add (Finite x) (Finite y) = round_double (x + y)"

definition js_sign :: "number \<Rightarrow> int" where
  "js_sign x =
     (case x of
        Finite q \<Rightarrow> (if 0 < q then 1 else if q < 0 then - 1 else 0)
      | PosInfinity \<Rightarrow> 1
      | NegInfinity \<Rightarrow> - 1
      | NaN \<Rightarrow> 0)"

definition js_mul :: "number \<Rightarrow> number \<Rightarrow> number" where
  "js_mul x y =
     (case (x, y) of
        (Finite p, Finite q) \<Rightarrow> round_double (p * q)
      | _ \<Rightarrow>
          if x = NaN \<or> y = NaN \<or> js_sign x * js_sign y = 0 then NaN
          else if 0 < js_sign x * js_sign y then PosInfinity else NegInfinity)"

text \<open>The sum of a list of numbers as a \<^verbatim>\<open>reduce\<close> computes it: from \<^verbatim>\<open>0\<close>, left to
  right, each addition rounded.\<close>

definition double_sum :: "number list \<Rightarrow> number" where
  "double_sum xs = foldl js_add (Finite 0) xs"

text \<open>The exact running sums of a list of integers, started at \<open>s\<close>, stay within
  \<open>2 ^ 53\<close> in magnitude.\<close>

fun exact_running :: "int \<Rightarrow> int list \<Rightarrow> bool" where
  "exact_running s [] = True"
| "exact_running s (x # xs) = (\<bar>s + x\<bar> \<le> 2 ^ 53 \<and> exact_running (s + x) xs)"

subsection \<open>Truthiness, strings\<close>

text \<open>\<^verbatim>\<open>a || b\<close> on numbers and on strings: the left operand unless it is falsy
  (\<^verbatim>\<open>0\<close>, \<^verbatim>\<open>NaN\<close>, \<^verbatim>\<open>''\<close>).\<close>

definition or_num :: "number \<Rightarrow> number \<Rightarrow> number" where
  "or_num a b = (if a = Finite 0 \<or> a = NaN then b else a)"

definition or_str :: "string \<Rightarrow> string \<Rightarrow> string" where
  "or_str a b = (if a = [] then b else a)"

text \<open>\<^verbatim>\<open>s.startsWith(p)\<close> and \<^verbatim>\<open>s.includes(p)\<close>: substring containment.\<close>

fun startsWith :: "string \<Rightarrow> string \<Rightarrow> bool" where
  "startsWith s [] = True"
| "startsWith [] (p # ps) = False"
| "startsWith (c # cs) (p # ps) = (c = p \<and> startsWith cs ps)"

fun includes_str :: "string \<Rightarrow> string \<Rightarrow> bool" where
  "includes_str [] p = (p = [])"
| "includes_str (c # cs) p = (startsWith (c # cs) p \<or> includes_str cs p)"

definition toLowerCase_char :: "char \<Rightarrow> char" where
  "toLowerCase_char c =
     (case map_of (zip ''ABCDEFGHIJKLMNOPQRSTUVWXYZ'' ''abcdefghijklmnopqrstuvwxyz'') c of
        Some l \<Rightarrow> l
      | None \<Rightarrow> c)"

definition toLowerCase :: "string \<Rightarrow> string" where
  "toLowerCase s = map toLowerCase_char s"

definition isWhiteSpace :: "char \<Rightarrow> bool" where
  "isWhiteSpace c = (c \<in> set [CHR 0x20, CHR 0x09, CHR 0x0A, CHR 0x0B, CHR 0x0C, CHR 0x0D])"

definition trim :: "string \<Rightarrow> string" where
  "trim s = rev (dropWhile isWhiteSpace (rev (dropWhile isWhiteSpace s)))"

text \<open>\<^verbatim>\<open>xs.join(sep)\<close>.\<close>

fun join :: "string list \<Rightarrow> string \<Rightarrow> string" where
  "join [] sep = []"
| "join [x] sep = x"
| "join (x # y # ys) sep = x @ sep @ join (y # ys) sep"

text \<open>\<^verbatim>\<open>s.substring(a, b)\<close>: the characters at positions \<open>min a b\<close> up to
  \<open>max a b - 1\<close>, as many as the string has.\<close>

definition substring :: "string \<Rightarrow> nat \<Rightarrow> nat \<Rightarrow> string" where
  "substring s a b = take (max a b - min a b) (drop (min a b) s)"

text \<open>\<^verbatim>\<open>str.replace(/"/g, '""')\<close>.\<close>

fun replace_dquote :: "string \<Rightarrow> string" where
  "replace_dquote [] = []"
| "replace_dquote (c # cs) =
     (if c = DQUOTE then DQUOTE # DQUOTE # replace_dquote cs else c # replace_dquote cs)"

subsection \<open>Values and their conversion to strings\<close>

text \<open>
  What the browser supplies: \<^verbatim>\<open>new Date(s).toLocaleDateString()\<close>, which depends on the
  locale, and the decimal rendering of a number (\<^verbatim>\<open>Number.prototype.toString\<close>).
\<close>

record builtins =
  toLocaleDateString :: "string \<Rightarrow> string"
  Number_toString :: "number \<Rightarrow> string"

text \<open>
  A value of type \<^verbatim>\<open>any\<close>. An object (and any value that is none of the others: an
  array, a function, a symbol) is given by what its conversion to a string does: it
  returns a string, or it throws (an object without a usable \<^verbatim>\<open>toString\<close>, such as
  \<^verbatim>\<open>Object.create(null)\<close>).
\<close>

datatype exception = TypeError

datatype js_value =
  JNull
| JUndefined
| JBool bool
| JNum number
| JStr string
| JObject "exception + string"

text \<open>\<^verbatim>\<open>String(value)\<close>.\<close>

fun js_String :: "builtins \<Rightarrow> js_value \<Rightarrow> exception + string" where
  "js_String b JNull = Inr ''null''"
| "js_String b JUndefined = Inr ''undefined''"
| "js_String b (JBool t) = Inr (if t then ''true'' else ''false'')"
| "js_String b (JNum n) = Inr (Number_toString b n)"
| "js_String b (JStr s) = Inr s"
| "js_String b (JObject r) = r"

text \<open>The elements of an array literal are evaluated from left to right, and the first
  exception ends the evaluation.\<close>

fun sequence :: "('e + 'a) list \<Rightarrow> 'e + 'a list" where
  "sequence [] = Inr []"
| "sequence (x # xs) =
     (case x of
        Inl e \<Rightarrow> Inl e
      | Inr v \<Rightarrow> (case sequence xs of Inl e \<Rightarrow> Inl e | Inr vs \<Rightarrow> Inr (v # vs)))"

section \<open>The CSV field escape\<close>

definition escapeCSV :: "builtins \<Rightarrow> js_value \<Rightarrow> exception + string" where
  "escapeCSV b v =
     (if v = JNull \<or> v = JUndefined then Inr []
      else
        (case js_String b v of
           Inl e \<Rightarrow> Inl e
         | Inr str \<Rightarrow>
             Inr (if includes_str str [COMMA] \<or> includes_str str [DQUOTE]
                  then [DQUOTE] @ replace_dquote str @ [DQUOTE]
                  else str)))"

text \<open>
  The reading of one serialized field by RFC 4180. A field enclosed in double quotes
  (\<^verbatim>\<open>escaped\<close>) loses the enclosing pair, every doubled quote inside stands for one
  quote, and commas and line breaks may stand inside; a field that is not enclosed
  (\<^verbatim>\<open>non-escaped\<close>) is text only: a comma, a quote, a carriage return or a line feed in
  it is not part of the field. \<open>textdata\<close> says which other characters are field text:
  RFC 4180 lists the printable ASCII characters (\<open>rfc4180_TEXTDATA\<close>), parsers take any
  character.
\<close>

definition rfc4180_TEXTDATA :: "char \<Rightarrow> bool" where
  "rfc4180_TEXTDATA c =
     (let n = (of_char c :: nat)
      in (32 \<le> n \<and> n \<le> 33) \<or> (35 \<le> n \<and> n \<le> 43) \<or> (45 \<le> n \<and> n \<le> 126))"

text \<open>The reading of parsers that take every character as text.\<close>

definition any_text :: "char \<Rightarrow> bool" where
  "any_text c = True"

definition is_delimiter :: "char \<Rightarrow> bool" where
  "is_delimiter c = (c = COMMA \<or> c = DQUOTE \<or> c = CR \<or> c = LF)"

fun unquote_body :: "(char \<Rightarrow> bool) \<Rightarrow> string \<Rightarrow> string option" where
  "unquote_body textdata [] = None"
| "unquote_body textdata [q] = (if q = DQUOTE then Some [] else None)"
| "unquote_body textdata (c # d # cs) =
     (if c = DQUOTE
      then (if d = DQUOTE
            then map_option (\<lambda>r. DQUOTE # r) (unquote_body textdata cs)
            else None)
      else if is_delimiter c \<or> textdata c
      then map_option (\<lambda>r. c # r) (unquote_body textdata (d # cs))
      else None)"

definition rfc4180_unquote :: "(char \<Rightarrow> bool) \<Rightarrow> string \<Rightarrow> string option" where
  "rfc4180_unquote textdata s =
     (case s of
        [] \<Rightarrow> Some []
      | c # cs \<Rightarrow>
          if c = DQUOTE then unquote_body textdata cs
          else if list_all (\<lambda>x. \<not> is_delimiter x \<and> textdata x) s then Some s else None)"

section \<open>The records of the two tables\<close>

record Registration =
  reg_id :: string
  name :: string
  reg_email :: string
  phone :: string
  adult_count :: number
  kids_count :: number
  family_category :: string
  total_amount :: number
  payment_status :: string
  transaction_id :: "string option"
  reg_created_at :: string
  is_tulip_parent :: bool
  t_shirt_sizes :: "string list option"
  reg_updated_at :: "string option"

record Donation =
  don_id :: string
  first_name :: string
  last_name :: string
  don_email :: string
  amount :: number
  designation :: string
  is_anonymous :: bool
  payment_id :: string
  donation_type :: string
  status :: string
  don_created_at :: string
  don_updated_at :: "string option"
  certificate_sent :: "bool option"

section \<open>Aggregate statistics\<close>

record stats =
  totalRegistrations :: nat
  totalParticipants :: number
  totalPaid :: nat
  totalPending :: nat
  totalRevenue :: number
  totalDonations :: nat
  totalDonationAmount :: number

definition calculateStats :: "Registration list \<Rightarrow> Donation list \<Rightarrow> stats" where
  "calculateStats regs dons =
     \<lparr> totalRegistrations = length regs,
       totalParticipants =
         foldl (\<lambda>sum reg. js_add (js_add sum (or_num (adult_count reg) (Finite 0)))
                            (or_num (kids_count reg) (Finite 0)))
           (Finite 0) regs,
       totalPaid = length (filter (\<lambda>reg. payment_status reg = ''paid'') regs),
       totalPending = length (filter (\<lambda>reg. payment_status reg = ''pending'') regs),
       totalRevenue =
         foldl (\<lambda>sum reg. js_add sum (or_num (total_amount reg) (Finite 0))) (Finite 0)
           (filter (\<lambda>reg. payment_status reg = ''paid'') regs),
       totalDonations = length dons,
       totalDonationAmount =
         foldl (\<lambda>sum don. js_add sum (or_num (amount don) (Finite 0))) (Finite 0)
           (filter (\<lambda>don. status don = ''completed'') dons) \<rparr>"

section \<open>The dashboard state\<close>

text \<open>
  The component state, with the notifications it has emitted so far: \<^verbatim>\<open>toast.error\<close>,
  \<^verbatim>\<open>toast.success\<close> (title and optional description) and \<^verbatim>\<open>console.error\<close>
  (the message; \<^verbatim>\<open>console.log\<close> diagnostics are not recorded).
\<close>

datatype effect =
  ConsoleError string
| ToastError string "string option"
| ToastSuccess string "string option"

record dashboard =
  donations :: "Donation list"
  registrations :: "Registration list"
  isLoading :: bool
  searchTerm :: string
  activeTab :: string
  donationFilter :: string
  registrationFilter :: string
  statsData :: stats
  effects :: "effect list"

definition emit :: "effect \<Rightarrow> dashboard \<Rightarrow> dashboard" where
  "emit e st = st\<lparr>effects := effects st @ [e]\<rparr>"

text \<open>
  An awaited request either rejects (an exception at the \<^verbatim>\<open>await\<close>) or resolves to
  the store's \<^verbatim>\<open>{ data, error }\<close> object.
\<close>

datatype 'a settled = Rejected string | Resolved 'a

record 'a response =
  data :: "'a option"
  error :: "string option"

section \<open>Search and status filter\<close>

definition matchesSearch_registration :: "string \<Rightarrow> Registration \<Rightarrow> bool" where
  "matchesSearch_registration q reg =
     (includes_str (toLowerCase (or_str (name reg) [])) (toLowerCase q) \<or>
      includes_str (toLowerCase (or_str (reg_email reg) [])) (toLowerCase q) \<or>
      includes_str (toLowerCase (or_str (family_category reg) [])) (toLowerCase q))"

definition matchesSearch_donation :: "string \<Rightarrow> Donation \<Rightarrow> bool" where
  "matchesSearch_donation q don =
     (includes_str
        (toLowerCase (or_str (first_name don) [] @ '' '' @ or_str (last_name don) []))
        (toLowerCase q) \<or>
      includes_str (toLowerCase (or_str (don_email don) [])) (toLowerCase q) \<or>
      includes_str (toLowerCase (or_str (designation don) [])) (toLowerCase q))"

definition filteredRegistrations :: "dashboard \<Rightarrow> Registration list" where
  "filteredRegistrations st =
     filter (\<lambda>reg.
        let matchesSearch = matchesSearch_registration (searchTerm st) reg in
        if registrationFilter st = ''all'' then matchesSearch
        else matchesSearch \<and> payment_status reg = registrationFilter st)
      (registrations st)"

definition filteredDonations :: "dashboard \<Rightarrow> Donation list" where
  "filteredDonations st =
     filter (\<lambda>don.
        let matchesSearch = matchesSearch_donation (searchTerm st) don in
        if donationFilter st = ''all'' then matchesSearch
        else matchesSearch \<and> status don = donationFilter st)
      (donations st)"

text \<open>
  The status-equality predicate of the exclusive-choice status filter, stated on its
  own: the choice \<^verbatim>\<open>all\<close> admits every record, any other choice admits the records
  whose status equals it.
\<close>

definition statusEquals_registration :: "string \<Rightarrow> Registration \<Rightarrow> bool" where
  "statusEquals_registration f reg = (f = ''all'' \<or> payment_status reg = f)"

definition statusEquals_donation :: "string \<Rightarrow> Donation \<Rightarrow> bool" where
  "statusEquals_donation f don = (f = ''all'' \<or> status don = f)"

section \<open>CSV export\<close>

datatype export_type = ExportRegistrations | ExportDonations

record export_file =
  download :: string
  csvContent :: string

definition registration_headers :: "string list" where
  "registration_headers =
     [''Name'', ''Email'', ''Phone'', ''Adults'', ''Kids'', ''Family Type'', ''Amount'',
      ''Status'', ''Transaction ID'', ''Date'', ''T-Shirt Sizes'']"

definition donation_headers :: "string list" where
  "donation_headers =
     [''Name'', ''Email'', ''Amount'', ''Designation'', ''Anonymous'', ''Payment ID'',
      ''Type'', ''Status'', ''Date'']"

text \<open>
  One exported row: the array of the escaped fields. The export expects that the store
  may give no \<^verbatim>\<open>t_shirt_sizes\<close> array and writes \<^verbatim>\<open>N/A\<close> then.
\<close>

definition registration_row :: "builtins \<Rightarrow> Registration \<Rightarrow> exception + string list" where
  "registration_row b reg =
     sequence
       [escapeCSV b (JStr (or_str (name reg) [])),
        escapeCSV b (JStr (or_str (reg_email reg) [])),
        escapeCSV b (JStr (or_str (phone reg) [])),
        escapeCSV b (JNum (or_num (adult_count reg) (Finite 0))),
        escapeCSV b (JNum (or_num (kids_count reg) (Finite 0))),
        escapeCSV b (JStr (or_str (family_category reg) [])),
        escapeCSV b (JNum (or_num (total_amount reg) (Finite 0))),
        escapeCSV b (JStr (or_str (payment_status reg) [])),
        escapeCSV b
          (JStr (case transaction_id reg of None \<Rightarrow> ''N/A'' | Some t \<Rightarrow> or_str t ''N/A'')),
        escapeCSV b (JStr (if reg_created_at reg \<noteq> []
                           then toLocaleDateString b (reg_created_at reg) else [])),
        escapeCSV b
          (JStr (case t_shirt_sizes reg of None \<Rightarrow> ''N/A'' | Some sizes \<Rightarrow> join sizes '', ''))]"

definition donation_row :: "builtins \<Rightarrow> Donation \<Rightarrow> exception + string list" where
  "donation_row b don =
     sequence
       [escapeCSV b (JStr (trim (trim (or_str (first_name don) []) @ '' '' @
                                 trim (or_str (last_name don) [])))),
        escapeCSV b (JStr (or_str (don_email don) [])),
        escapeCSV b (JNum (or_num (amount don) (Finite 0))),
        escapeCSV b (JStr (or_str (designation don) [])),
        escapeCSV b (JStr (if is_anonymous don then ''Yes'' else ''No'')),
        escapeCSV b (JStr (or_str (payment_id don) [])),
        escapeCSV b (JStr (or_str (donation_type don) [])),
        escapeCSV b (JStr (or_str (status don) [])),
        escapeCSV b (JStr (if don_created_at don \<noteq> []
                           then toLocaleDateString b (don_created_at don) else []))]"

text \<open>The header line and one line per row, joined by line feeds.\<close>

definition csv_text :: "string list \<Rightarrow> string list list \<Rightarrow> string" where
  "csv_text headers csvData = join (join headers '','' # map (\<lambda>row. join row '','') csvData) [LF]"

text \<open>The rows \<^verbatim>\<open>handleExportData\<close> builds (\<^verbatim>\<open>csvData\<close>), and the file it offers
  for download; \<open>now\<close> is \<^verbatim>\<open>new Date().toISOString()\<close>. An exception of a row would
  leave the handler.\<close>

definition export_csvData :: "export_type \<Rightarrow> builtins \<Rightarrow> dashboard \<Rightarrow> exception + string list list" where
  "export_csvData type b st =
     (case type of
        ExportRegistrations \<Rightarrow> sequence (map (registration_row b) (registrations st))
      | ExportDonations \<Rightarrow> sequence (map (donation_row b) (donations st)))"

definition handleExportData :: "export_type \<Rightarrow> builtins \<Rightarrow> string \<Rightarrow> dashboard \<Rightarrow> exception + export_file" where
  "handleExportData type b now st =
     (case export_csvData type b st of
        Inl e \<Rightarrow> Inl e
      | Inr csvData \<Rightarrow>
          Inr \<lparr> download =
                  (case type of ExportRegistrations \<Rightarrow> ''registrations''
                              | ExportDonations \<Rightarrow> ''donations'')
                  @ ''-'' @ takeWhile (\<lambda>c. c \<noteq> CHR ''T'') now @ ''.csv'',
                csvContent =
                  csv_text
                    (case type of ExportRegistrations \<Rightarrow> registration_headers
                                | ExportDonations \<Rightarrow> donation_headers)
                    csvData \<rparr>)"

text \<open>The same serialization applied to a given list of records: what an export of
  exactly that list is.\<close>

definition registrations_csv :: "builtins \<Rightarrow> Registration list \<Rightarrow> exception + string" where
  "registrations_csv b regs =
     (case sequence (map (registration_row b) regs) of
        Inl e \<Rightarrow> Inl e
      | Inr csvData \<Rightarrow> Inr (csv_text registration_headers csvData))"

definition donations_csv :: "builtins \<Rightarrow> Donation list \<Rightarrow> exception + string" where
  "donations_csv b dons =
     (case sequence (map (donation_row b) dons) of
        Inl e \<Rightarrow> Inl e
      | Inr csvData \<Rightarrow> Inr (csv_text donation_headers csvData))"

text \<open>What a finished export wrote, and how many line feeds are in it.\<close>

definition exported_text :: "exception + export_file \<Rightarrow> exception + string" where
  "exported_text r = (case r of Inl e \<Rightarrow> Inl e | Inr f \<Rightarrow> Inr (csvContent f))"

definition line_feeds :: "exception + string \<Rightarrow> nat" where
  "line_feeds r = (case r of Inl e \<Rightarrow> 0 | Inr s \<Rightarrow> length (filter (\<lambda>c. c = LF) s))"

section \<open>Loading the two lists\<close>

text \<open>
  The three requests \<^verbatim>\<open>fetchData\<close> awaits, in order: the registrations read, the
  donations table check (its error is only logged) and the donations read.
\<close>

record fetch_env =
  registrations_read :: "Registration list response settled"
  donation_check :: "unit response settled"
  donations_read :: "Donation list response settled"

text \<open>
  The body of the \<^verbatim>\<open>try\<close> block: the state it leaves behind, and whether it threw.
  State updates made before a throw stay.
\<close>

definition fetchData_try :: "fetch_env \<Rightarrow> dashboard \<Rightarrow> dashboard \<times> bool" where
  "fetchData_try env st =
     (case registrations_read env of
        Rejected e \<Rightarrow> (st, True)
      | Resolved r \<Rightarrow>
          if error r \<noteq> None
          then (emit (ConsoleError ''Error fetching registrations:'') st, True)
          else
            let st1 = st\<lparr>registrations := (case data r of None \<Rightarrow> [] | Some rows \<Rightarrow> rows)\<rparr> in
            (case donation_check env of
               Rejected e \<Rightarrow> (st1, True)
             | Resolved c \<Rightarrow>
                 let st2 =
                   (if error c \<noteq> None
                    then emit (ConsoleError
                           ''This suggests the table might not exist or you lack permissions'')
                           (emit (ConsoleError ''Error checking donations table:'') st1)
                    else st1) in
                 (case donations_read env of
                    Rejected e \<Rightarrow> (st2, True)
                  | Resolved d \<Rightarrow>
                      if error d \<noteq> None
                      then (emit (ConsoleError ''Error fetching donations:'') st2, True)
                      else
                        let st3 = st2\<lparr>donations :=
                                    (case data d of None \<Rightarrow> [] | Some rows \<Rightarrow> rows)\<rparr> in
                        (st3\<lparr>statsData :=
                             calculateStats
                               (case data r of None \<Rightarrow> [] | Some rows \<Rightarrow> rows)
                               (case data d of None \<Rightarrow> [] | Some rows \<Rightarrow> rows)\<rparr>,
                         False))))"

definition fetchData :: "fetch_env \<Rightarrow> dashboard \<Rightarrow> dashboard" where
  "fetchData env st =
     (let (st1, thrown) = fetchData_try env (st\<lparr>isLoading := True\<rparr>);
          st2 = (if thrown
                 then emit (ToastError ''Failed to load data''
                              (Some ''Please try again or contact support''))
                        (emit (ConsoleError ''Error fetching data:'') st1)
                 else st1)
      in st2\<lparr>isLoading := False\<rparr>)"

section \<open>Status corrections\<close>

text \<open>
  The patch \<^verbatim>\<open>updateData\<close> of \<^verbatim>\<open>handleUpdatePaymentStatus\<close>. \<open>random36\<close> is
  \<^verbatim>\<open>Math.random().toString(36)\<close>, the base-36 rendering of the random draw
  (\<^verbatim>\<open>"0"\<close> for the draw 0, otherwise \<^verbatim>\<open>"0."\<close> and the digits the rendering needs),
  and \<open>now\<close> is \<^verbatim>\<open>new Date().toISOString()\<close>.
\<close>

record registration_patch =
  rp_payment_status :: string
  rp_transaction_id :: "string option"
  rp_updated_at :: string

record donation_patch =
  dp_status :: string
  dp_updated_at :: string

definition updatePaymentStatus_data :: "string \<Rightarrow> string \<Rightarrow> string \<Rightarrow> registration_patch" where
  "updatePaymentStatus_data new_status random36 now =
     \<lparr> rp_payment_status = new_status,
       rp_transaction_id =
         (if new_status = ''paid'' then Some (''tx_'' @ substring random36 2 11) else None),
       rp_updated_at = now \<rparr>"

definition updateDonationStatus_data :: "string \<Rightarrow> string \<Rightarrow> donation_patch" where
  "updateDonationStatus_data new_status now =
     \<lparr> dp_status = new_status, dp_updated_at = now \<rparr>"

text \<open>\<^verbatim>\<open>{ ...reg, ...updateData }\<close> and \<^verbatim>\<open>{ ...don, ...updateData }\<close>.\<close>

definition spread_registration :: "Registration \<Rightarrow> registration_patch \<Rightarrow> Registration" where
  "spread_registration reg updateData =
     reg\<lparr> payment_status := rp_payment_status updateData,
          transaction_id := rp_transaction_id updateData,
          reg_updated_at := Some (rp_updated_at updateData) \<rparr>"

definition spread_donation :: "Donation \<Rightarrow> donation_patch \<Rightarrow> Donation" where
  "spread_donation don updateData =
     don\<lparr> status := dp_status updateData,
          don_updated_at := Some (dp_updated_at updateData) \<rparr>"

text \<open>
  The handlers. \<open>update_result\<close> is what the awaited single-row update settles to, and
  \<open>reload\<close> what the requests of the \<^verbatim>\<open>fetchData()\<close> started after a successful
  update settle to.
\<close>

definition handleUpdatePaymentStatus ::
  "string \<Rightarrow> string \<Rightarrow> string \<Rightarrow> string \<Rightarrow> unit response settled \<Rightarrow> fetch_env \<Rightarrow>
   dashboard \<Rightarrow> dashboard" where
  "handleUpdatePaymentStatus rid new_status random36 now update_result reload st =
     (let updateData = updatePaymentStatus_data new_status random36 now;
          failed = emit (ToastError ''Failed to update payment status'' None)
                     (emit (ConsoleError ''Error updating payment status:'') st)
      in case update_result of
           Rejected e \<Rightarrow> failed
         | Resolved r \<Rightarrow>
             if error r \<noteq> None then failed
             else
               fetchData reload
                 (emit (ToastSuccess (''Payment status updated to '' @ new_status) None)
                    (st\<lparr>registrations :=
                         map (\<lambda>reg. if reg_id reg = rid
                                     then spread_registration reg updateData else reg)
                           (registrations st)\<rparr>)))"

definition handleUpdateDonationStatus ::
  "string \<Rightarrow> string \<Rightarrow> string \<Rightarrow> unit response settled \<Rightarrow> fetch_env \<Rightarrow>
   dashboard \<Rightarrow> dashboard" where
  "handleUpdateDonationStatus did new_status now update_result reload st =
     (let updateData = updateDonationStatus_data new_status now;
          failed = emit (ToastError ''Failed to update donation status'' None)
                     (emit (ConsoleError ''Error updating donation status:'') st)
      in case update_result of
           Rejected e \<Rightarrow> failed
         | Resolved r \<Rightarrow>
             if error r \<noteq> None then failed
             else
               fetchData reload
                 (emit (ToastSuccess (''Donation status updated to '' @ new_status) None)
                    (st\<lparr>donations :=
                         map (\<lambda>don. if don_id don = did
                                     then spread_donation don updateData else don)
                           (donations st)\<rparr>)))"

text \<open>A sequence of \<^verbatim>\<open>updatePaymentStatus\<close> calls, each with its arguments and with
  what its requests settle to.\<close>

record payment_status_call =
  call_id :: string
  call_status :: string
  call_random36 :: string
  call_now :: string
  call_update_result :: "unit response settled"
  call_reload :: fetch_env

definition run_call :: "dashboard \<Rightarrow> payment_status_call \<Rightarrow> dashboard" where
  "run_call st c =
     handleUpdatePaymentStatus (call_id c) (call_status c) (call_random36 c) (call_now c)
       (call_update_result c) (call_reload c) st"

text \<open>The invariant of a registration: a transaction id only on a paid record.\<close>

definition registration_invariant :: "Registration \<Rightarrow> bool" where
  "registration_invariant reg = (transaction_id reg = None \<or> payment_status reg = ''paid'')"

text \<open>A request has failed when it rejects or resolves with an error.\<close>

definition request_failed :: "'a response settled \<Rightarrow> bool" where
  "request_failed u = (case u of Rejected e \<Rightarrow> True | Resolved r \<Rightarrow> error r \<noteq> None)"

text \<open>The rows a reload brings in, when its registrations read succeeds.\<close>

definition reloaded_registrations :: "fetch_env \<Rightarrow> Registration list" where
  "reloaded_registrations env =
     (case registrations_read env of
        Rejected e \<Rightarrow> []
      | Resolved r \<Rightarrow>
          if error r \<noteq> None then []
          else (case data r of None \<Rightarrow> [] | Some rows \<Rightarrow> rows))"

text \<open>The pattern \<^verbatim>\<open>tx_[a-z0-9]{9}\<close>.\<close>

definition matches_tx_pattern :: "string \<Rightarrow> bool" where
  "matches_tx_pattern s =
     (take 3 s = ''tx_'' \<and> length s = 12 \<and>
      list_all (\<lambda>c. c \<in> set ''abcdefghijklmnopqrstuvwxyz0123456789'') (drop 3 s))"

section \<open>The donation form\<close>

record form_data =
  firstName :: string
  lastName :: string
  email :: string
  form_amount :: number
  form_designation :: "string option"
  isAnonymous :: "bool option"

text \<open>The object \<^verbatim>\<open>confirmCardPayment\<close> resolves to: an error, or the payment intent
  with its id.\<close>

record confirm_result =
  confirm_error :: "string option"
  paymentIntent :: "string option"

text \<open>
  What the environment gives one submission: whether the payment library and its
  elements are loaded, what \<^verbatim>\<open>createPaymentIntent\<close> settles to (the client secret),
  whether the card element is mounted, and what the confirmation and the insert settle
  to.
\<close>

record form_env =
  stripe_ready :: bool
  payment_intent :: "string settled"
  cardElement_found :: bool
  confirm :: "confirm_result settled"
  insert_result :: "unit response settled"

record donation_insert =
  ins_first_name :: string
  ins_last_name :: string
  ins_email :: string
  ins_amount :: number
  ins_designation :: "string option"
  ins_is_anonymous :: bool
  ins_payment_id :: string
  ins_donation_type :: string
  ins_status :: string
  ins_created_at :: string

record donationData =
  nav_name :: string
  nav_email :: string
  nav_amount :: number
  nav_designation :: "string option"
  nav_isAnonymous :: bool

record nav_state =
  nav_donationData :: donationData
  transactionId :: string

text \<open>What a submission does, in order.\<close>

datatype form_event =
  SetIsProcessingPayment bool
| Notify effect
| CreatePaymentIntent number string
| ConfirmCardPayment string string string
| InsertDonation donation_insert
| Navigate string nav_state

text \<open>The body of the \<^verbatim>\<open>try\<close> block of \<^verbatim>\<open>onSubmit\<close>: its events, and whether it
  threw. \<open>now\<close> is \<^verbatim>\<open>new Date().toISOString()\<close>.\<close>

definition onSubmit_try :: "form_env \<Rightarrow> string \<Rightarrow> form_data \<Rightarrow> form_event list \<times> bool" where
  "onSubmit_try env now d =
     (let intent = CreatePaymentIntent (js_mul (form_amount d) (Finite 100))
                     (''Donation to Tulip Kids Foundation - '' @
                      (case form_designation d of None \<Rightarrow> ''General''
                                                 | Some g \<Rightarrow> or_str g ''General''))
      in case payment_intent env of
           Rejected e \<Rightarrow> ([intent], True)
         | Resolved clientSecret \<Rightarrow>
             if \<not> cardElement_found env then ([intent], True)
             else
               let confirmation = ConfirmCardPayment clientSecret
                                    (firstName d @ '' '' @ lastName d) (email d)
               in (case confirm env of
                    Rejected e \<Rightarrow> ([intent, confirmation], True)
                  | Resolved result \<Rightarrow>
                      if confirm_error result \<noteq> None then ([intent, confirmation], True)
                      else
                        (case paymentIntent result of
                           None \<Rightarrow> ([intent, confirmation], True)
                         | Some pid \<Rightarrow>
                             let ins = InsertDonation
                                   \<lparr> ins_first_name = firstName d,
                                     ins_last_name = lastName d,
                                     ins_email = email d,
                                     ins_amount = form_amount d,
                                     ins_designation = form_designation d,
                                     ins_is_anonymous =
                                       (case isAnonymous d of None \<Rightarrow> False | Some b \<Rightarrow> b),
                                     ins_payment_id = pid,
                                     ins_donation_type = ''Website Donation'',
                                     ins_status = ''completed'',
                                     ins_created_at = now \<rparr>
                             in (case insert_result env of
                                  Rejected e \<Rightarrow> ([intent, confirmation, ins], True)
                                | Resolved r \<Rightarrow>
                                    ([intent, confirmation, ins] @
                                     (if error r \<noteq> None
                                      then [Notify (ConsoleError ''Database error:'')] else []) @
                                     [Notify (ToastSuccess ''Donation successful!''
                                                (Some ''Thank you for your generous support.'')),
                                      Navigate ''/donation-success''
                                        \<lparr> nav_donationData =
                                            \<lparr> nav_name = firstName d @ '' '' @ lastName d,
                                              nav_email = email d,
                                              nav_amount = form_amount d,
                                              nav_designation = form_designation d,
                                              nav_isAnonymous =
                                                (case isAnonymous d of None \<Rightarrow> False
                                                                     | Some b \<Rightarrow> b) \<rparr>,
                                          transactionId = pid \<rparr>],
                                     False)))))"

definition onSubmit :: "form_env \<Rightarrow> string \<Rightarrow> form_data \<Rightarrow> form_event list" where
  "onSubmit env now d =
     (if \<not> stripe_ready env
      then [Notify (ToastError ''Stripe has not been initialized'' None)]
      else
        let (events, thrown) = onSubmit_try env now d in
        [SetIsProcessingPayment True] @ events @
        (if thrown
         then [Notify (ConsoleError ''Payment error:''),
               Notify (ToastError ''Payment failed''
                         (Some ''Please try again or contact support''))]
         else []) @
        [SetIsProcessingPayment False])"

text \<open>The notifications among the events of a submission, and whether a notification
  is a user-facing error.\<close>

fun notifications :: "form_event list \<Rightarrow> effect list" where
  "notifications [] = []"
| "notifications (Notify e # evs) = e # notifications evs"
| "notifications (ev # evs) = notifications evs"

fun is_ToastError :: "effect \<Rightarrow> bool" where
  "is_ToastError (ToastError t d) = True"
| "is_ToastError e = False"

section \<open>Concrete records and states\<close>

definition example_pending_registration :: Registration where
  "example_pending_registration =
     \<lparr> reg_id = ''r1'', name = ''Ann Lee'', reg_email = ''ann@example.org'',
       phone = ''555-0100'', adult_count = Finite 2, kids_count = Finite 1,
       family_category = ''family'',
       total_amount = Finite 150, payment_status = ''pending'', transaction_id = None,
       reg_created_at = ''2025-01-02T10:00:00.000Z'', is_tulip_parent = False,
       t_shirt_sizes = Some [''M'', ''S''], reg_updated_at = None \<rparr>"

definition example_paid_registration :: Registration where
  "example_paid_registration =
     \<lparr> reg_id = ''r2'', name = ''Bob Ray'', reg_email = ''bob@example.org'',
       phone = ''555-0101'', adult_count = Finite 1, kids_count = Finite 0,
       family_category = ''single'',
       total_amount = Finite 80, payment_status = ''paid'',
       transaction_id = Some ''tx_9f8e7d6c5'',
       reg_created_at = ''2025-01-01T09:00:00.000Z'', is_tulip_parent = True,
       t_shirt_sizes = Some [''L''], reg_updated_at = None \<rparr>"

definition example_completed_donation :: Donation where
  "example_completed_donation =
     \<lparr> don_id = ''d1'', first_name = ''Ann'', last_name = ''Lee'',
       don_email = ''ann@example.org'', amount = Finite 50,
       designation = ''Where Needed Most'',
       is_anonymous = False, payment_id = ''pi_123'', donation_type = ''Website Donation'',
       status = ''completed'', don_created_at = ''2025-01-03T08:00:00.000Z'',
       don_updated_at = None, certificate_sent = Some False \<rparr>"

definition example_pending_donation :: Donation where
  "example_pending_donation =
     \<lparr> don_id = ''d2'', first_name = ''Cy'', last_name = ''Moss'',
       don_email = ''cy@example.org'', amount = Finite 20, designation = ''Education'',
       is_anonymous = True, payment_id = ''pi_456'', donation_type = ''Website Donation'',
       status = ''pending'', don_created_at = ''2025-01-04T08:00:00.000Z'',
       don_updated_at = None, certificate_sent = None \<rparr>"

text \<open>A loaded dashboard with the search term \<^verbatim>\<open>ann\<close> typed in.\<close>

definition example_dashboard :: dashboard where
  "example_dashboard =
     \<lparr> donations = [example_pending_donation, example_completed_donation],
       registrations = [example_pending_registration, example_paid_registration],
       isLoading = False, searchTerm = ''ann'', activeTab = ''registrations'',
       donationFilter = ''all'', registrationFilter = ''all'',
       statsData =
         \<lparr> totalRegistrations = 2, totalParticipants = Finite 4, totalPaid = 1,
           totalPending = 1, totalRevenue = Finite 80, totalDonations = 2,
           totalDonationAmount = Finite 50 \<rparr>,
       effects = [] \<rparr>"

definition example_now :: string where
  "example_now = ''2025-03-01T12:00:00.000Z''"

text \<open>
  Builtins for the examples: the date is the first ten characters of the timestamp, and
  a whole number is written with its decimal digits, as \<^verbatim>\<open>Number.prototype.toString\<close>
  writes the whole numbers of the examples.
\<close>

text \<open>The decimal digits of a natural number.\<close>

function string_of_nat :: "nat \<Rightarrow> string" where
  "string_of_nat n =
     (if n < 10 then [''0123456789'' ! n]
      else string_of_nat (n div 10) @ [''0123456789'' ! (n mod 10)])"
  by pat_completeness auto
termination
  by (relation "measure (\<lambda>n. n)") auto

declare string_of_nat.simps [simp del]

definition whole_number_toString :: "number \<Rightarrow> string" where
  "whole_number_toString x =
     (case x of
        Finite q \<Rightarrow>
          (if q < 0 then CHR ''-'' # string_of_nat (nat (- \<lfloor>q\<rfloor>))
           else string_of_nat (nat \<lfloor>q\<rfloor>))
      | PosInfinity \<Rightarrow> ''Infinity''
      | NegInfinity \<Rightarrow> ''-Infinity''
      | NaN \<Rightarrow> ''NaN'')"

definition example_builtins :: builtins where
  "example_builtins =
     \<lparr> toLocaleDateString = take 10, Number_toString = whole_number_toString \<rparr>"

text \<open>A registration whose party sizes add up beyond \<open>2 ^ 53\<close>, and two completed
  donations of 1.10 and 1.30 (the doubles nearest to them).\<close>

definition example_large_registration :: Registration where
  "example_large_registration =
     example_paid_registration
       \<lparr> adult_count := Finite 9007199254740992, kids_count := Finite 1 \<rparr>"

definition example_cent_donations :: "Donation list" where
  "example_cent_donations =
     [example_completed_donation
        \<lparr> amount := Finite (4953959590107546 / 4503599627370496) \<rparr>,
      example_completed_donation
        \<lparr> amount := Finite (5854679515581645 / 4503599627370496) \<rparr>]"

text \<open>A dashboard whose records have fields of two lines without comma or quote.\<close>

definition example_multiline_dashboard :: dashboard where
  "example_multiline_dashboard =
     example_dashboard
       \<lparr> donations :=
           [example_completed_donation \<lparr> designation := ''Where'' @ [LF] @ ''Needed'' \<rparr>],
         registrations :=
           [example_paid_registration,
            example_pending_registration \<lparr> name := ''Ann'' @ [LF] @ ''Lee'' \<rparr>] \<rparr>"

text \<open>An object whose conversion to a string throws.\<close>

definition example_unprintable :: js_value where
  "example_unprintable = JObject (Inl TypeError)"

text \<open>Settled requests: a store error, and a successful single-row update.\<close>

definition store_error :: "'a response settled" where
  "store_error = Resolved \<lparr> data = None, error = Some ''permission denied'' \<rparr>"

definition update_ok :: "unit response settled" where
  "update_ok = Resolved \<lparr> data = None, error = None \<rparr>"

text \<open>A reload in which both reads succeed, and one in which the registrations read
  succeeds and the donations read fails.\<close>

definition example_reload :: fetch_env where
  "example_reload =
     \<lparr> registrations_read =
         Resolved \<lparr> data = Some [example_paid_registration], error = None \<rparr>,
       donation_check = Resolved \<lparr> data = None, error = None \<rparr>,
       donations_read =
         Resolved \<lparr> data = Some [example_completed_donation], error = None \<rparr> \<rparr>"

definition example_failing_reload :: fetch_env where
  "example_failing_reload =
     \<lparr> registrations_read =
         Resolved \<lparr> data = Some [example_paid_registration], error = None \<rparr>,
       donation_check = Resolved \<lparr> data = None, error = None \<rparr>,
       donations_read = store_error \<rparr>"

text \<open>Two status corrections in a row: the first succeeds and its reload cannot read
  the registrations, so the local patch stays; the second is refused by the store.\<close>

definition example_calls :: "payment_status_call list" where
  "example_calls =
     [\<lparr> call_id = ''r1'', call_status = ''paid'', call_random36 = ''0.k3j9x0q2abc'',
        call_now = example_now, call_update_result = update_ok,
        call_reload = \<lparr> registrations_read = store_error,
                        donation_check = store_error,
                        donations_read = store_error \<rparr> \<rparr>,
      \<lparr> call_id = ''r2'', call_status = ''pending'', call_random36 = ''0.5'',
        call_now = example_now, call_update_result = store_error,
        call_reload = example_reload \<rparr>]"

text \<open>A submission in which the payment is confirmed and the insert returns an error.\<close>

definition example_form_data :: form_data where
  "example_form_data =
     \<lparr> firstName = ''Ann'', lastName = ''Lee'', email = ''ann@example.org'',
       form_amount = Finite 50, form_designation = Some ''Where Needed Most'',
       isAnonymous = Some False \<rparr>"

definition example_insert_fails :: form_env where
  "example_insert_fails =
     \<lparr> stripe_ready = True,
       payment_intent = Resolved ''secret_1'',
       cardElement_found = True,
       confirm = Resolved \<lparr> confirm_error = None, paymentIntent = Some ''pi_123'' \<rparr>,
       insert_result = store_error \<rparr>"

section \<open>Helper lemmas\<close>

lemma or_num_Finite: "or_num (Finite q) (Finite 0) = Finite q"
  by (simp add: or_num_def)

lemma or_str_empty: "or_str a [] = a"
  by (simp add: or_str_def)

lemma startsWith_single: "startsWith s [c] = (s \<noteq> [] \<and> hd s = c)"
  by (cases s) auto

lemma includes_str_single: "includes_str s [c] = (c \<in> set s)"
  by (induction s) (auto simp: startsWith_single)

lemma replace_dquote_concat:
  "replace_dquote s = concat (map (\<lambda>c. if c = DQUOTE then [DQUOTE, DQUOTE] else [c]) s)"
  by (induction s) simp_all

lemma escapeCSV_JStr:
  "escapeCSV b (JStr s) =
     Inr (if COMMA \<in> set s \<or> DQUOTE \<in> set s then [DQUOTE] @ replace_dquote s @ [DQUOTE] else s)"
  by (simp add: escapeCSV_def includes_str_single)

lemma escapeCSV_JNum: "\<exists>cell. escapeCSV b (JNum n) = Inr cell"
  by (simp add: escapeCSV_def)

subsection \<open>Rounding is exact on whole numbers up to \<open>2 ^ 53\<close>\<close>

lemma round_half_even_of_int: "round_half_even (of_int m) = m"
  by (simp add: round_half_even_def)

lemma round_double_of_pos_int:
  assumes "0 < k" and "k \<le> 2 ^ 53"
  shows "round_double (of_int k) = Finite (of_int k)"
proof -
  define e where "e = bitlen k - 1"
  from assms(1) have lo: "2 ^ nat e \<le> k"
    using bitlen_bounds [of k] by (simp add: e_def)
  from assms(1) have e0: "0 \<le> e"
    using bitlen_eq_zero_iff [of k] bitlen_nonneg [of k] unfolding e_def by linarith
  from lo assms(2) have "(2::int) ^ nat e \<le> 2 ^ 53"
    by linarith
  then have "nat e \<le> 53"
    by (rule power_le_imp_le_exp [rotated]) simp
  with e0 have e53: "e \<le> 53"
    by linarith
  have a: "\<bar>of_int k :: rat\<bar> = of_int k"
    using assms(1) by simp
  have ge1: "(1::rat) \<le> of_int k"
    using assms(1) by simp
  have fl: "floor_log2 (of_int k) = e"
    using ge1 by (simp add: floor_log2_def e_def)
  have small: "\<not> pow2 1024 \<le> (of_int k :: rat)"
  proof -
    have "(of_int k :: rat) \<le> 2 ^ 53"
      using assms(2) by (metis of_int_le_iff of_int_numeral of_int_power)
    also have "\<dots> < 2 ^ 1024"
      by (rule power_strict_increasing) simp_all
    finally show ?thesis
      by (simp add: pow2_def)
  qed
  define u where "u = pow2 (max (e - 52) (- 1074))"
  have r: "of_int (round_half_even (of_int k / u)) * u = (of_int k :: rat)"
  proof (cases "e \<le> 52")
    case True
    with e0 have m: "max (e - 52) (- 1074) = e - 52"
      by simp
    have p: "u = 1 / 2 ^ nat (52 - e)"
      using True unfolding u_def m by (cases "e = 52") (simp_all add: pow2_def)
    have "(of_int k :: rat) / u = of_int (k * 2 ^ nat (52 - e))"
      by (simp add: p)
    then have "round_half_even (of_int k / u) = k * 2 ^ nat (52 - e)"
      by (simp only: round_half_even_of_int)
    then show ?thesis
      by (simp add: p)
  next
    case False
    with e53 have e: "e = 53"
      by linarith
    with lo assms(2) have k: "k = 2 ^ 53"
      by simp
    have p: "u = 2"
      by (simp add: u_def e pow2_def)
    have "(of_int k :: rat) / u = of_int (2 ^ 52)"
      by (simp add: k p)
    then have "round_half_even (of_int k / u) = 2 ^ 52"
      by (simp only: round_half_even_of_int)
    then show ?thesis
      by (simp add: k p)
  qed
  from assms(1) have nz: "(of_int k :: rat) \<noteq> 0" and pos: "(0::rat) < of_int k"
    by simp_all
  show ?thesis
    unfolding round_double_def Let_def a fl u_def [symmetric] r
    using nz pos small by simp
qed

lemma round_double_uminus:
  "round_double (- q) =
     (case round_double q of
        Finite r \<Rightarrow> Finite (- r)
      | PosInfinity \<Rightarrow> NegInfinity
      | NegInfinity \<Rightarrow> PosInfinity
      | NaN \<Rightarrow> NaN)"
  by (cases "q = 0"; cases "0 < q") (auto simp: round_double_def Let_def)

lemma round_double_of_int:
  assumes "\<bar>n\<bar> \<le> 2 ^ 53"
  shows "round_double (of_int n) = Finite (of_int n)"
proof (cases "0 < n")
  case True
  with assms show ?thesis
    by (simp add: round_double_of_pos_int)
next
  case False
  show ?thesis
  proof (cases "n = 0")
    case True
    then show ?thesis by (simp add: round_double_def)
  next
    case nz: False
    with False have "0 < - n" by simp
    moreover from assms False have "- n \<le> 2 ^ 53" by simp
    ultimately have "round_double (of_int (- n)) = Finite (of_int (- n))"
      by (rule round_double_of_pos_int)
    then have "round_double (- of_int n) = Finite (- of_int n)"
      by simp
    then show ?thesis
      by (simp add: round_double_uminus split: number.splits)
  qed
qed

lemma foldl_js_add_exact:
  "exact_running s ns \<Longrightarrow>
   foldl js_add (Finite (of_int s)) (map (\<lambda>n. Finite (of_int n)) ns) =
     Finite (of_int (s + sum_list ns))"
proof (induction ns arbitrary: s)
  case Nil
  show ?case by simp
next
  case (Cons n ns)
  then have b: "\<bar>s + n\<bar> \<le> 2 ^ 53" and rest: "exact_running (s + n) ns"
    by simp_all
  have "js_add (Finite (of_int s)) (Finite (of_int n)) = round_double (of_int (s + n))"
    by simp
  also have "\<dots> = Finite (of_int (s + n))"
    using b by (rule round_double_of_int)
  finally have step: "js_add (Finite (of_int s)) (Finite (of_int n)) = Finite (of_int (s + n))" .
  have "foldl js_add (Finite (of_int s)) (map (\<lambda>n. Finite (of_int n)) (n # ns)) =
        foldl js_add (Finite (of_int (s + n))) (map (\<lambda>n. Finite (of_int n)) ns)"
    by (simp only: list.map foldl_Cons step)
  also have "\<dots> = Finite (of_int (s + n + sum_list ns))"
    using rest by (rule Cons.IH)
  finally show ?case
    by (simp add: add.assoc)
qed

lemma double_sum_exact:
  "exact_running 0 ns \<Longrightarrow>
   double_sum (map (\<lambda>n. Finite (of_int n)) ns) = Finite (of_int (sum_list ns))"
  using foldl_js_add_exact [of 0 ns] by (simp add: double_sum_def)

lemma foldl_js_add_pairs:
  "foldl (\<lambda>sum x. js_add (js_add sum (f x)) (g x)) z xs =
   foldl js_add z (concat (map (\<lambda>x. [f x, g x]) xs))"
  by (induction xs arbitrary: z) simp_all

lemma foldl_js_add_map:
  "foldl (\<lambda>sum x. js_add sum (f x)) z xs = foldl js_add z (map f xs)"
  by (induction xs arbitrary: z) simp_all

lemma or_num_map_whole:
  "map (\<lambda>x. or_num x (Finite 0)) (map (\<lambda>n. Finite (of_int n)) ns) =
   map (\<lambda>n. Finite (of_int n)) ns"
  by (simp add: or_num_Finite)

lemma concat_pairs_map:
  "concat (map (\<lambda>x. [h (f x), h (g x)]) xs) = map h (concat (map (\<lambda>x. [f x, g x]) xs))"
  by (induction xs) simp_all

section \<open>Aggregate statistics are double-precision sums\<close>

lemma round_double_2_53: "round_double 9007199254740992 = Finite 9007199254740992"
  by code_simp

lemma round_double_2_53_plus_1: "round_double 9007199254740993 = Finite 9007199254740992"
  by code_simp

lemma round_double_1_10:
  "round_double (2476979795053773 / 2251799813685248) =
     Finite (2476979795053773 / 2251799813685248)"
  by code_simp

lemma round_double_2_40:
  "round_double (10808639105689191 / 4503599627370496) =
     Finite (1351079888211149 / 562949953421312)"
  by code_simp

text \<open>
  C3 as stated (each total equals the sum) fails: a registration with \<open>2 ^ 53\<close> adults and
  one child gives \<^verbatim>\<open>totalParticipants\<close> \<open>2 ^ 53\<close>, not \<open>2 ^ 53 + 1\<close>, and two completed
  donations of 1.10 and 1.30 give a \<^verbatim>\<open>totalDonationAmount\<close> above the sum of the two
  amounts.
\<close>

theorem calculateStats_exact_sum_counterexample:
  "adult_count example_large_registration = Finite 9007199254740992
   \<and> kids_count example_large_registration = Finite 1
   \<and> totalParticipants (calculateStats [example_large_registration] []) =
       Finite 9007199254740992
   \<and> totalParticipants (calculateStats [example_large_registration] []) \<noteq>
       Finite (9007199254740992 + 1)
   \<and> map amount example_cent_donations =
       [Finite (4953959590107546 / 4503599627370496),
        Finite (5854679515581645 / 4503599627370496)]
   \<and> map status example_cent_donations = [''completed'', ''completed'']
   \<and> totalDonationAmount (calculateStats [] example_cent_donations) =
       Finite (10808639105689192 / 4503599627370496)
   \<and> totalDonationAmount (calculateStats [] example_cent_donations) \<noteq>
       Finite (4953959590107546 / 4503599627370496 + 5854679515581645 / 4503599627370496)"
proof -
  have a: "adult_count example_large_registration = Finite 9007199254740992"
    and k: "kids_count example_large_registration = Finite 1"
    by (simp_all add: example_large_registration_def)
  have p: "totalParticipants (calculateStats [example_large_registration] []) =
       Finite 9007199254740992"
    by (simp add: calculateStats_def example_large_registration_def
        example_paid_registration_def or_num_def round_double_2_53 round_double_2_53_plus_1)
  have p': "totalParticipants (calculateStats [example_large_registration] []) \<noteq>
       Finite (9007199254740992 + 1)"
    by (simp add: p)
  have m: "map amount example_cent_donations =
       [Finite (4953959590107546 / 4503599627370496),
        Finite (5854679515581645 / 4503599627370496)]"
    by (simp add: example_cent_donations_def)
  have s: "map status example_cent_donations = [''completed'', ''completed'']"
    by (simp add: example_cent_donations_def example_completed_donation_def)
  have d: "totalDonationAmount (calculateStats [] example_cent_donations) =
       Finite (10808639105689192 / 4503599627370496)"
    by (simp add: calculateStats_def example_cent_donations_def
        example_completed_donation_def or_num_def round_double_1_10 round_double_2_40)
  have d': "totalDonationAmount (calculateStats [] example_cent_donations) \<noteq>
       Finite (4953959590107546 / 4503599627370496 + 5854679515581645 / 4503599627370496)"
    by (simp add: d)
  show ?thesis
    by (intro conjI a k p p' m s d d')
qed

text \<open>
  C3, amended: for every loaded registration list \<open>R\<close> and donation list \<open>D\<close>,
  \<^verbatim>\<open>calculateStats\<close> gives \<^verbatim>\<open>totalParticipants\<close> as the double-precision sum, taken
  from left to right with every addition rounded, of \<^verbatim>\<open>adult_count\<close> then
  \<^verbatim>\<open>kids_count\<close> over all of \<open>R\<close>, \<^verbatim>\<open>totalRevenue\<close> as that sum of \<^verbatim>\<open>total_amount\<close>
  over exactly the registrations whose \<^verbatim>\<open>payment_status\<close> is \<^verbatim>\<open>paid\<close>, and
  \<^verbatim>\<open>totalDonationAmount\<close> as that sum of \<^verbatim>\<open>amount\<close> over exactly the donations whose
  \<^verbatim>\<open>status\<close> is \<^verbatim>\<open>completed\<close> (a field that is \<^verbatim>\<open>NaN\<close> counts as 0). Each total is
  the exact sum whenever the summed fields are whole numbers and the exact running sums
  stay within \<open>2 ^ 53\<close> in magnitude.
\<close>

theorem calculateStats_double_sums:
  "totalParticipants (calculateStats R D) =
     double_sum (concat (map (\<lambda>reg. [or_num (adult_count reg) (Finite 0),
                                       or_num (kids_count reg) (Finite 0)]) R))
   \<and> totalRevenue (calculateStats R D) =
       double_sum (map (\<lambda>reg. or_num (total_amount reg) (Finite 0))
                     (filter (\<lambda>reg. payment_status reg = ''paid'') R))
   \<and> totalDonationAmount (calculateStats R D) =
       double_sum (map (\<lambda>don. or_num (amount don) (Finite 0))
                     (filter (\<lambda>don. status don = ''completed'') D))
   \<and> (concat (map (\<lambda>reg. [adult_count reg, kids_count reg]) R) =
         map (\<lambda>n. Finite (of_int n)) ps \<and> exact_running 0 ps \<longrightarrow>
       totalParticipants (calculateStats R D) = Finite (of_int (sum_list ps)))
   \<and> (map total_amount (filter (\<lambda>reg. payment_status reg = ''paid'') R) =
         map (\<lambda>n. Finite (of_int n)) rs \<and> exact_running 0 rs \<longrightarrow>
       totalRevenue (calculateStats R D) = Finite (of_int (sum_list rs)))
   \<and> (map amount (filter (\<lambda>don. status don = ''completed'') D) =
         map (\<lambda>n. Finite (of_int n)) ds \<and> exact_running 0 ds \<longrightarrow>
       totalDonationAmount (calculateStats R D) = Finite (of_int (sum_list ds)))"
proof -
  have p: "totalParticipants (calculateStats R D) =
     double_sum (concat (map (\<lambda>reg. [or_num (adult_count reg) (Finite 0),
                                       or_num (kids_count reg) (Finite 0)]) R))"
    unfolding double_sum_def
    by (simp add: calculateStats_def) (rule foldl_js_add_pairs)
  have r: "totalRevenue (calculateStats R D) =
       double_sum (map (\<lambda>reg. or_num (total_amount reg) (Finite 0))
                     (filter (\<lambda>reg. payment_status reg = ''paid'') R))"
    unfolding double_sum_def
    by (simp add: calculateStats_def) (rule foldl_js_add_map)
  have d: "totalDonationAmount (calculateStats R D) =
       double_sum (map (\<lambda>don. or_num (amount don) (Finite 0))
                     (filter (\<lambda>don. status don = ''completed'') D))"
    unfolding double_sum_def
    by (simp add: calculateStats_def) (rule foldl_js_add_map)
  have pe: "totalParticipants (calculateStats R D) = Finite (of_int (sum_list ps))"
    if "concat (map (\<lambda>reg. [adult_count reg, kids_count reg]) R) =
          map (\<lambda>n. Finite (of_int n)) ps \<and> exact_running 0 ps"
  proof -
    have "concat (map (\<lambda>reg. [or_num (adult_count reg) (Finite 0),
                               or_num (kids_count reg) (Finite 0)]) R) =
          map (\<lambda>x. or_num x (Finite 0))
            (concat (map (\<lambda>reg. [adult_count reg, kids_count reg]) R))"
      by (rule concat_pairs_map)
    also have "\<dots> = map (\<lambda>n. Finite (of_int n)) ps"
      using that by (simp only: or_num_map_whole)
    finally show ?thesis
      using that by (simp only: p double_sum_exact)
  qed
  have re: "totalRevenue (calculateStats R D) = Finite (of_int (sum_list rs))"
    if "map total_amount (filter (\<lambda>reg. payment_status reg = ''paid'') R) =
          map (\<lambda>n. Finite (of_int n)) rs \<and> exact_running 0 rs"
  proof -
    have "map (\<lambda>reg. or_num (total_amount reg) (Finite 0))
            (filter (\<lambda>reg. payment_status reg = ''paid'') R) =
          map (\<lambda>x. or_num x (Finite 0))
            (map total_amount (filter (\<lambda>reg. payment_status reg = ''paid'') R))"
      by simp
    also have "\<dots> = map (\<lambda>n. Finite (of_int n)) rs"
      using that by (simp only: or_num_map_whole)
    finally show ?thesis
      using that by (simp only: r double_sum_exact)
  qed
  have de: "totalDonationAmount (calculateStats R D) = Finite (of_int (sum_list ds))"
    if "map amount (filter (\<lambda>don. status don = ''completed'') D) =
          map (\<lambda>n. Finite (of_int n)) ds \<and> exact_running 0 ds"
  proof -
    have "map (\<lambda>don. or_num (amount don) (Finite 0))
            (filter (\<lambda>don. status don = ''completed'') D) =
          map (\<lambda>x. or_num x (Finite 0))
            (map amount (filter (\<lambda>don. status don = ''completed'') D))"
      by simp
    also have "\<dots> = map (\<lambda>n. Finite (of_int n)) ds"
      using that by (simp only: or_num_map_whole)
    finally show ?thesis
      using that by (simp only: d double_sum_exact)
  qed
  from p r d pe re de show ?thesis
    by blast
qed

theorem calculateStats_double_sums_witness:
  "exact_running 0 [2, 1, 1, 0] \<and> exact_running 0 [80] \<and> exact_running 0 [50]
   \<and> totalParticipants
       (calculateStats [example_pending_registration, example_paid_registration]
          [example_pending_donation, example_completed_donation]) = Finite 4
   \<and> totalRevenue
       (calculateStats [example_pending_registration, example_paid_registration]
          [example_pending_donation, example_completed_donation]) = Finite 80
   \<and> totalDonationAmount
       (calculateStats [example_pending_registration, example_paid_registration]
          [example_pending_donation, example_completed_donation]) = Finite 50"
proof -
  let ?R = "[example_pending_registration, example_paid_registration]"
  let ?D = "[example_pending_donation, example_completed_donation]"
  have h1: "concat (map (\<lambda>reg. [adult_count reg, kids_count reg]) ?R) =
              map (\<lambda>n. Finite (of_int n)) [2, 1, 1, 0] \<and> exact_running 0 [2, 1, 1, 0]"
    by (simp add: example_pending_registration_def example_paid_registration_def)
  have h2: "map total_amount (filter (\<lambda>reg. payment_status reg = ''paid'') ?R) =
              map (\<lambda>n. Finite (of_int n)) [80] \<and> exact_running 0 [80]"
    by (simp add: example_pending_registration_def example_paid_registration_def)
  have h3: "map amount (filter (\<lambda>don. status don = ''completed'') ?D) =
              map (\<lambda>n. Finite (of_int n)) [50] \<and> exact_running 0 [50]"
    by (simp add: example_pending_donation_def example_completed_donation_def)
  from calculateStats_double_sums [where R = ?R and D = ?D and ps = "[2, 1, 1, 0]"
      and rs = "[80]" and ds = "[50]"] h1 h2 h3
  have "totalParticipants (calculateStats ?R ?D) = Finite (of_int (sum_list [2, 1, 1, 0]))"
    and "totalRevenue (calculateStats ?R ?D) = Finite (of_int (sum_list [80]))"
    and "totalDonationAmount (calculateStats ?R ?D) = Finite (of_int (sum_list [50]))"
    by blast+
  with h1 h2 h3 show ?thesis
    by simp
qed

section \<open>The CSV escape and its inverse\<close>

lemma unquote_body_replace:
  "list_all (\<lambda>c. is_delimiter c \<or> textdata c) s \<Longrightarrow>
   unquote_body textdata (replace_dquote s @ [DQUOTE]) = Some s"
proof (induction s)
  case Nil
  show ?case by simp
next
  case (Cons c cs)
  obtain d ds where r: "replace_dquote cs @ [DQUOTE] = d # ds"
    by (cases "replace_dquote cs @ [DQUOTE]") auto
  show ?case
  proof (cases "c = DQUOTE")
    case True
    with Cons show ?thesis by simp
  next
    case False
    with Cons r show ?thesis by simp
  qed
qed

lemma unquote_plain:
  assumes "COMMA \<notin> set s" and "DQUOTE \<notin> set s"
      and "list_all (\<lambda>c. is_delimiter c \<or> textdata c) s"
  shows "rfc4180_unquote textdata s = (if CR \<notin> set s \<and> LF \<notin> set s then Some s else None)"
proof -
  have "list_all (\<lambda>x. \<not> is_delimiter x \<and> textdata x) s = (CR \<notin> set s \<and> LF \<notin> set s)"
    using assms by (induction s) (auto simp: is_delimiter_def)
  with assms(2) show ?thesis
    by (cases s) (auto simp: rfc4180_unquote_def)
qed

lemma unquote_escaped:
  assumes "list_all (\<lambda>c. is_delimiter c \<or> textdata c) s"
  shows "rfc4180_unquote textdata
           (if COMMA \<in> set s \<or> DQUOTE \<in> set s then [DQUOTE] @ replace_dquote s @ [DQUOTE] else s) =
         (if COMMA \<in> set s \<or> DQUOTE \<in> set s \<or> (CR \<notin> set s \<and> LF \<notin> set s)
          then Some s else None)"
proof (cases "COMMA \<in> set s \<or> DQUOTE \<in> set s")
  case True
  then show ?thesis
    using unquote_body_replace [OF assms]
    by (auto simp: rfc4180_unquote_def simp del: replace_dquote.simps)
next
  case False
  then show ?thesis
    using unquote_plain [of s textdata] assms by simp
qed

text \<open>
  C8 as stated (the unquoting recovers every string field) fails: a field with a line
  feed and no comma or quote is written unenclosed, and an unenclosed field with a line
  break is not a field for RFC 4180, whatever other characters count as text.
\<close>

theorem escapeCSV_roundtrip_counterexample:
  "escapeCSV example_builtins (JStr (''Ann'' @ [LF] @ ''Lee'')) = Inr (''Ann'' @ [LF] @ ''Lee'')
   \<and> rfc4180_unquote any_text (''Ann'' @ [LF] @ ''Lee'') = None
   \<and> rfc4180_unquote rfc4180_TEXTDATA (''Ann'' @ [LF] @ ''Lee'') = None"
  by (simp add: escapeCSV_JStr rfc4180_unquote_def is_delimiter_def)

text \<open>
  C8, amended: for every string field, \<^verbatim>\<open>escapeCSV\<close> wraps the field in double quotes
  and doubles the embedded double quotes exactly when the field contains a comma or a
  double quote, and leaves it as it is otherwise; the field \<^verbatim>\<open>John, "Doe"\<close> serializes
  to \<^verbatim>\<open>"John, ""Doe"""\<close>; and the unquoting of RFC 4180 applied to the serialized field
  gives back the original string exactly when the field contains a comma or a double
  quote, or contains no carriage return and no line feed (for a field whose other
  characters are field text to the reader). A field with a line break and no comma or
  quote is written unenclosed and is not read back.
\<close>

theorem escapeCSV_roundtrip:
  "escapeCSV b (JStr s) =
     Inr (if COMMA \<in> set s \<or> DQUOTE \<in> set s
          then [DQUOTE] @ concat (map (\<lambda>c. if c = DQUOTE then [DQUOTE, DQUOTE] else [c]) s) @
               [DQUOTE]
          else s)
   \<and> escapeCSV b (JStr (''John, '' @ [DQUOTE] @ ''Doe'' @ [DQUOTE])) =
       Inr ([DQUOTE] @ ''John, '' @ [DQUOTE, DQUOTE] @ ''Doe'' @ [DQUOTE, DQUOTE, DQUOTE])
   \<and> (list_all (\<lambda>c. is_delimiter c \<or> textdata c) s \<longrightarrow>
       (\<exists>e. escapeCSV b (JStr s) = Inr e \<and>
            rfc4180_unquote textdata e =
              (if COMMA \<in> set s \<or> DQUOTE \<in> set s \<or> (CR \<notin> set s \<and> LF \<notin> set s)
               then Some s else None)))"
proof -
  have a: "escapeCSV b (JStr s) =
     Inr (if COMMA \<in> set s \<or> DQUOTE \<in> set s
          then [DQUOTE] @ concat (map (\<lambda>c. if c = DQUOTE then [DQUOTE, DQUOTE] else [c]) s) @
               [DQUOTE]
          else s)"
    by (simp only: escapeCSV_JStr replace_dquote_concat)
  have c: "escapeCSV b (JStr (''John, '' @ [DQUOTE] @ ''Doe'' @ [DQUOTE])) =
       Inr ([DQUOTE] @ ''John, '' @ [DQUOTE, DQUOTE] @ ''Doe'' @ [DQUOTE, DQUOTE, DQUOTE])"
    by (simp add: escapeCSV_JStr)
  have u: "\<exists>e. escapeCSV b (JStr s) = Inr e \<and>
            rfc4180_unquote textdata e =
              (if COMMA \<in> set s \<or> DQUOTE \<in> set s \<or> (CR \<notin> set s \<and> LF \<notin> set s)
               then Some s else None)"
    if "list_all (\<lambda>c. is_delimiter c \<or> textdata c) s"
    using unquote_escaped [OF that] by (simp only: escapeCSV_JStr) blast
  show ?thesis
    by (intro conjI impI a c u)
qed

theorem escapeCSV_roundtrip_witness:
  "list_all (\<lambda>c. is_delimiter c \<or> rfc4180_TEXTDATA c) (''John, '' @ [DQUOTE] @ ''Doe'' @ [DQUOTE])
   \<and> (\<exists>e. escapeCSV example_builtins (JStr (''John, '' @ [DQUOTE] @ ''Doe'' @ [DQUOTE])) = Inr e \<and>
          rfc4180_unquote rfc4180_TEXTDATA e = Some (''John, '' @ [DQUOTE] @ ''Doe'' @ [DQUOTE]))"
proof -
  let ?s = "''John, '' @ [DQUOTE] @ ''Doe'' @ [DQUOTE]"
  have h: "list_all (\<lambda>c. is_delimiter c \<or> rfc4180_TEXTDATA c) ?s"
    by (simp add: is_delimiter_def rfc4180_TEXTDATA_def)
  have q: "COMMA \<in> set ?s"
    by simp
  from escapeCSV_roundtrip [where b = example_builtins and s = ?s
      and textdata = rfc4180_TEXTDATA] h
  have "\<exists>e. escapeCSV example_builtins (JStr ?s) = Inr e \<and>
          rfc4180_unquote rfc4180_TEXTDATA e =
            (if COMMA \<in> set ?s \<or> DQUOTE \<in> set ?s \<or> (CR \<notin> set ?s \<and> LF \<notin> set ?s)
             then Some ?s else None)"
    by blast
  then have "\<exists>e. escapeCSV example_builtins (JStr ?s) = Inr e \<and>
          rfc4180_unquote rfc4180_TEXTDATA e = Some ?s"
    using q by (simp only: if_True simp_thms)
  with h show ?thesis
    by blast
qed

section \<open>Search and status filter commute\<close>

lemma filteredRegistrations_pred:
  "filteredRegistrations st =
     filter (\<lambda>reg. matchesSearch_registration (searchTerm st) reg \<and>
                  statusEquals_registration (registrationFilter st) reg) (registrations st)"
  unfolding filteredRegistrations_def statusEquals_registration_def Let_def
  by (rule filter_cong) auto

lemma filteredDonations_pred:
  "filteredDonations st =
     filter (\<lambda>don. matchesSearch_donation (searchTerm st) don \<and>
                  statusEquals_donation (donationFilter st) don) (donations st)"
  unfolding filteredDonations_def statusEquals_donation_def Let_def
  by (rule filter_cong) auto

lemma filter_swap: "filter P (filter Q xs) = filter Q (filter P xs)"
  by (induction xs) auto

lemma filter_twice: "filter P (filter P xs) = filter P xs"
  by simp

text \<open>
  C9: for every list of records, search term and status filter value, the free-text
  predicate and the status-equality predicate commute and are each idempotent: filtering
  by them in either order gives the combined filter of the dashboard
  (\<^verbatim>\<open>filteredRegistrations\<close>, \<^verbatim>\<open>filteredDonations\<close>), applying either predicate twice
  gives what applying it once gives, and the combined filter applied to its own result
  changes nothing.
\<close>

theorem filters_commute_idempotent:
  "filteredRegistrations st =
     filter (matchesSearch_registration (searchTerm st))
       (filter (statusEquals_registration (registrationFilter st)) (registrations st))
   \<and> filteredRegistrations st =
     filter (statusEquals_registration (registrationFilter st))
       (filter (matchesSearch_registration (searchTerm st)) (registrations st))
   \<and> filteredDonations st =
     filter (matchesSearch_donation (searchTerm st))
       (filter (statusEquals_donation (donationFilter st)) (donations st))
   \<and> filteredDonations st =
     filter (statusEquals_donation (donationFilter st))
       (filter (matchesSearch_donation (searchTerm st)) (donations st))
   \<and> filter (matchesSearch_registration q) (filter (matchesSearch_registration q) regs) =
       filter (matchesSearch_registration q) regs
   \<and> filter (statusEquals_registration f) (filter (statusEquals_registration f) regs) =
       filter (statusEquals_registration f) regs
   \<and> filter (matchesSearch_donation q) (filter (matchesSearch_donation q) dons) =
       filter (matchesSearch_donation q) dons
   \<and> filter (statusEquals_donation f) (filter (statusEquals_donation f) dons) =
       filter (statusEquals_donation f) dons
   \<and> filteredRegistrations (st\<lparr>registrations := filteredRegistrations st\<rparr>) =
       filteredRegistrations st
   \<and> filteredDonations (st\<lparr>donations := filteredDonations st\<rparr>) = filteredDonations st"
proof -
  have r2: "filteredRegistrations st =
     filter (statusEquals_registration (registrationFilter st))
       (filter (matchesSearch_registration (searchTerm st)) (registrations st))"
    by (simp add: filteredRegistrations_pred)
  have r1: "filteredRegistrations st =
     filter (matchesSearch_registration (searchTerm st))
       (filter (statusEquals_registration (registrationFilter st)) (registrations st))"
    by (simp only: r2 filter_swap [of "statusEquals_registration (registrationFilter st)"])
  have d2: "filteredDonations st =
     filter (statusEquals_donation (donationFilter st))
       (filter (matchesSearch_donation (searchTerm st)) (donations st))"
    by (simp add: filteredDonations_pred)
  have d1: "filteredDonations st =
     filter (matchesSearch_donation (searchTerm st))
       (filter (statusEquals_donation (donationFilter st)) (donations st))"
    by (simp only: d2 filter_swap [of "statusEquals_donation (donationFilter st)"])
  have r3: "filteredRegistrations (st\<lparr>registrations := filteredRegistrations st\<rparr>) =
       filteredRegistrations st"
    by (simp add: filteredRegistrations_pred)
  have d3: "filteredDonations (st\<lparr>donations := filteredDonations st\<rparr>) = filteredDonations st"
    by (simp add: filteredDonations_pred)
  show ?thesis
    by (intro conjI r1 r2 d1 d2 r3 d3 filter_twice)
qed

theorem filters_commute_idempotent_witness:
  "filteredRegistrations example_dashboard = [example_pending_registration]
   \<and> filter (matchesSearch_registration (searchTerm example_dashboard))
       (filter (statusEquals_registration (registrationFilter example_dashboard))
          (registrations example_dashboard)) = [example_pending_registration]
   \<and> filter (statusEquals_registration (registrationFilter example_dashboard))
       (filter (matchesSearch_registration (searchTerm example_dashboard))
          (registrations example_dashboard)) = [example_pending_registration]"
proof -
  have a: "filteredRegistrations example_dashboard = [example_pending_registration]"
    by code_simp
  from filters_commute_idempotent [of example_dashboard] have
    r1: "filteredRegistrations example_dashboard =
         filter (matchesSearch_registration (searchTerm example_dashboard))
           (filter (statusEquals_registration (registrationFilter example_dashboard))
              (registrations example_dashboard))" and
    r2: "filteredRegistrations example_dashboard =
         filter (statusEquals_registration (registrationFilter example_dashboard))
           (filter (matchesSearch_registration (searchTerm example_dashboard))
              (registrations example_dashboard))"
    by blast+
  from r1 a have b: "filter (matchesSearch_registration (searchTerm example_dashboard))
       (filter (statusEquals_registration (registrationFilter example_dashboard))
          (registrations example_dashboard)) = [example_pending_registration]"
    by (rule subst)
  from r2 a have c: "filter (statusEquals_registration (registrationFilter example_dashboard))
       (filter (matchesSearch_registration (searchTerm example_dashboard))
          (registrations example_dashboard)) = [example_pending_registration]"
    by (rule subst)
  show ?thesis
    by (intro conjI a b c)
qed

section \<open>What the export serializes\<close>

lemma sequence_map_Inr:
  "(\<And>x. x \<in> set xs \<Longrightarrow> \<exists>v. f x = Inr v) \<Longrightarrow>
   sequence (map f xs) = Inr (map (\<lambda>x. projr (f x)) xs)"
proof (induction xs)
  case Nil
  show ?case by simp
next
  case (Cons x xs)
  from Cons.prems obtain v where v: "f x = Inr v"
    by auto
  from Cons have "sequence (map f xs) = Inr (map (\<lambda>x. projr (f x)) xs)"
    by simp
  with v show ?case
    by simp
qed

lemma escapeCSV_JNum_returns: "\<exists>cell. escapeCSV b (JNum n) = Inr cell"
  by (simp add: escapeCSV_def)

lemma registration_row_returns: "\<exists>cells. registration_row b reg = Inr cells"
  by (simp add: registration_row_def escapeCSV_def)

lemma donation_row_returns: "\<exists>cells. donation_row b don = Inr cells"
  by (simp add: donation_row_def escapeCSV_def)

lemma registration_rows:
  "sequence (map (registration_row b) regs) =
     Inr (map (\<lambda>reg. projr (registration_row b reg)) regs)"
  by (rule sequence_map_Inr) (rule registration_row_returns)

lemma donation_rows:
  "sequence (map (donation_row b) dons) = Inr (map (\<lambda>don. projr (donation_row b don)) dons)"
  by (rule sequence_map_Inr) (rule donation_row_returns)

text \<open>
  C1 as stated (the export serializes exactly the currently filtered list, not the full
  list) fails: with the search term \<^verbatim>\<open>ann\<close> the filtered view holds one of the two
  loaded registrations, and the export still writes a row for each of the two.
\<close>

theorem exportData_filtered_counterexample:
  "filteredRegistrations example_dashboard = [example_pending_registration]
   \<and> map_sum id (map hd) (export_csvData ExportRegistrations example_builtins example_dashboard) =
       Inr [''Ann Lee'', ''Bob Ray'']
   \<and> exported_text
       (handleExportData ExportRegistrations example_builtins example_now example_dashboard)
       \<noteq> registrations_csv example_builtins (filteredRegistrations example_dashboard)"
proof -
  let ?exported = "exported_text (handleExportData ExportRegistrations example_builtins
                     example_now example_dashboard)"
  let ?filtered = "registrations_csv example_builtins (filteredRegistrations example_dashboard)"
  have a: "filteredRegistrations example_dashboard = [example_pending_registration]"
    by code_simp
  have b: "map_sum id (map hd)
             (export_csvData ExportRegistrations example_builtins example_dashboard) =
           Inr [''Ann Lee'', ''Bob Ray'']"
    by code_simp
  have c: "line_feeds ?exported = 2"
    by code_simp
  have d: "line_feeds ?filtered = 1"
    by code_simp
  have e: "?exported \<noteq> ?filtered"
  proof
    assume "?exported = ?filtered"
    then have "line_feeds ?exported = line_feeds ?filtered"
      by (rule arg_cong)
    then show False
      by (simp add: c d)
  qed
  show ?thesis
    by (intro conjI a b e)
qed

text \<open>
  C1, amended: \<^verbatim>\<open>exportData(kind)\<close> serializes the full in-memory list of that kind,
  one CSV row per loaded record, whatever the search term and the status filters are:
  the filtered view is not consulted.
\<close>

theorem handleExportData_serializes_loaded_list:
  "exported_text (handleExportData ExportRegistrations fmt now st) =
     registrations_csv fmt (registrations st)
   \<and> exported_text (handleExportData ExportDonations fmt now st) =
       donations_csv fmt (donations st)
   \<and> (\<exists>rows. export_csvData ExportRegistrations fmt st = Inr rows \<and>
              length rows = length (registrations st))
   \<and> (\<exists>rows. export_csvData ExportDonations fmt st = Inr rows \<and>
              length rows = length (donations st))
   \<and> handleExportData k fmt now
       (st\<lparr>searchTerm := q, registrationFilter := f, donationFilter := g\<rparr>) =
     handleExportData k fmt now st"
proof -
  have a: "exported_text (handleExportData ExportRegistrations fmt now st) =
     registrations_csv fmt (registrations st)"
    by (simp add: exported_text_def handleExportData_def export_csvData_def
        registrations_csv_def registration_rows)
  have b: "exported_text (handleExportData ExportDonations fmt now st) =
       donations_csv fmt (donations st)"
    by (simp add: exported_text_def handleExportData_def export_csvData_def
        donations_csv_def donation_rows)
  have c: "\<exists>rows. export_csvData ExportRegistrations fmt st = Inr rows \<and>
              length rows = length (registrations st)"
    by (simp add: export_csvData_def registration_rows)
  have d: "\<exists>rows. export_csvData ExportDonations fmt st = Inr rows \<and>
              length rows = length (donations st)"
    by (simp add: export_csvData_def donation_rows)
  have e: "handleExportData k fmt now
       (st\<lparr>searchTerm := q, registrationFilter := f, donationFilter := g\<rparr>) =
     handleExportData k fmt now st"
    by (cases k) (simp_all add: handleExportData_def export_csvData_def)
  show ?thesis
    by (intro conjI a b c d e)
qed

theorem handleExportData_serializes_loaded_list_witness:
  "(\<exists>rows. export_csvData ExportRegistrations example_builtins example_dashboard = Inr rows \<and>
            length rows = length (registrations example_dashboard))
   \<and> length (registrations example_dashboard) = 2
   \<and> handleExportData ExportRegistrations example_builtins example_now
       (example_dashboard\<lparr>searchTerm := ''bob'', registrationFilter := ''paid'',
          donationFilter := ''all''\<rparr>) =
     handleExportData ExportRegistrations example_builtins example_now example_dashboard"
proof -
  have n: "length (registrations example_dashboard) = 2"
    by (simp add: example_dashboard_def)
  from handleExportData_serializes_loaded_list [where fmt = example_builtins
      and now = example_now and st = example_dashboard and k = ExportRegistrations
      and q = "''bob''" and f = "''paid''" and g = "''all''"] n
  show ?thesis
    by blast
qed

section \<open>The escape on null, undefined, other values and fields with line breaks\<close>

lemma escapeCSV_plain:
  "v \<noteq> JNull \<Longrightarrow> v \<noteq> JUndefined \<Longrightarrow> js_String b v = Inr str \<Longrightarrow>
   COMMA \<notin> set str \<Longrightarrow> DQUOTE \<notin> set str \<Longrightarrow> escapeCSV b v = Inr str"
  by (simp add: escapeCSV_def includes_str_single)

lemma escapeCSV_returns_iff:
  "v \<noteq> JNull \<Longrightarrow> v \<noteq> JUndefined \<Longrightarrow>
   (\<exists>r. escapeCSV b v = Inr r) = (\<exists>str. js_String b v = Inr str)"
  by (cases "js_String b v") (simp_all add: escapeCSV_def)

lemma js_String_returns_iff:
  "(\<exists>str. js_String b v = Inr str) = (\<forall>e. v \<noteq> JObject (Inl e))"
proof (cases v)
  case (JObject r)
  then show ?thesis by (cases r) simp_all
qed simp_all

lemma join_Cons: "xs \<noteq> [] \<Longrightarrow> join (x # xs) sep = x @ sep @ join xs sep"
  by (cases xs) simp_all

lemma join_member:
  "x \<in> set xs \<Longrightarrow> \<exists>pre post. join (h # xs) sep = pre @ sep @ x @ post"
proof (induction xs arbitrary: h)
  case Nil
  then show ?case by simp
next
  case (Cons y ys)
  show ?case
  proof (cases "x = y")
    case True
    have "join (h # y # ys) sep = h @ sep @ y @ (if ys = [] then [] else sep @ join ys sep)"
      by (cases ys) simp_all
    with True show ?thesis by blast
  next
    case False
    with Cons.prems have "x \<in> set ys" by simp
    then obtain pre post where "join (y # ys) sep = pre @ sep @ x @ post"
      using Cons.IH by blast
    then have "join (h # y # ys) sep = (h @ sep @ pre) @ sep @ x @ post"
      by simp
    then show ?thesis by blast
  qed
qed

lemma registration_row_plain_name:
  assumes "COMMA \<notin> set (name reg)" and "DQUOTE \<notin> set (name reg)"
  shows "\<exists>rest. join (projr (registration_row b reg)) '','' = name reg @ '','' @ rest"
proof -
  obtain cells where c: "registration_row b reg = Inr (name reg # cells)" and n: "cells \<noteq> []"
    using assms
    by (auto simp: registration_row_def or_str_empty escapeCSV_def includes_str_single)
  from n have "join (name reg # cells) '','' = name reg @ '','' @ join cells '',''"
    by (rule join_Cons)
  with c show ?thesis by simp
qed

lemma donation_row_plain_designation:
  assumes "COMMA \<notin> set (designation don)" and "DQUOTE \<notin> set (designation don)"
  shows "\<exists>before rest. join (projr (donation_row b don)) '','' =
           before @ '','' @ designation don @ '','' @ rest"
proof -
  obtain c1 c2 c3 cells where
    c: "donation_row b don = Inr (c1 # c2 # c3 # designation don # cells)" and n: "cells \<noteq> []"
    using assms
    by (auto simp: donation_row_def or_str_empty escapeCSV_def includes_str_single)
  from n have "join (c1 # c2 # c3 # designation don # cells) '','' =
               (c1 @ '','' @ c2 @ '','' @ c3) @ '','' @ designation don @ '','' @ join cells '',''"
    by (cases cells) simp_all
  with c show ?thesis by (metis sum.sel(2))
qed

lemma export_registration_name_bare:
  assumes "reg \<in> set (registrations st)"
      and "COMMA \<notin> set (name reg)" and "DQUOTE \<notin> set (name reg)"
  shows "\<exists>f pre post. handleExportData ExportRegistrations b now st = Inr f \<and>
           csvContent f = pre @ [LF] @ name reg @ '','' @ post"
proof -
  let ?line = "\<lambda>reg. join (projr (registration_row b reg)) '',''"
  let ?lines = "map ?line (registrations st)"
  from assms(1) have "?line reg \<in> set ?lines"
    by simp
  then obtain pre post where
    j: "join (join registration_headers '','' # ?lines) [LF] = pre @ [LF] @ ?line reg @ post"
    using join_member by blast
  obtain rest where r: "?line reg = name reg @ '','' @ rest"
    using registration_row_plain_name [OF assms(2,3)] by blast
  have "handleExportData ExportRegistrations b now st =
          Inr \<lparr> download = ''registrations'' @ ''-'' @ takeWhile (\<lambda>c. c \<noteq> CHR ''T'') now @ ''.csv'',
                csvContent = join (join registration_headers '','' # ?lines) [LF] \<rparr>"
    by (simp add: handleExportData_def export_csvData_def registration_rows csv_text_def
        comp_def)
  moreover have "join (join registration_headers '','' # ?lines) [LF] =
                 pre @ [LF] @ name reg @ '','' @ (rest @ post)"
    by (simp add: j r)
  ultimately show ?thesis
    by (metis export_file.select_convs(2))
qed

lemma export_donation_designation_bare:
  assumes "don \<in> set (donations st)"
      and "COMMA \<notin> set (designation don)" and "DQUOTE \<notin> set (designation don)"
  shows "\<exists>f pre post. handleExportData ExportDonations b now st = Inr f \<and>
           csvContent f = pre @ '','' @ designation don @ '','' @ post"
proof -
  let ?line = "\<lambda>don. join (projr (donation_row b don)) '',''"
  let ?lines = "map ?line (donations st)"
  from assms(1) have "?line don \<in> set ?lines"
    by simp
  then obtain pre post where
    j: "join (join donation_headers '','' # ?lines) [LF] = pre @ [LF] @ ?line don @ post"
    using join_member by blast
  obtain before rest where r: "?line don = before @ '','' @ designation don @ '','' @ rest"
    using donation_row_plain_designation [OF assms(2,3)] by blast
  have "handleExportData ExportDonations b now st =
          Inr \<lparr> download = ''donations'' @ ''-'' @ takeWhile (\<lambda>c. c \<noteq> CHR ''T'') now @ ''.csv'',
                csvContent = join (join donation_headers '','' # ?lines) [LF] \<rparr>"
    by (simp add: handleExportData_def export_csvData_def donation_rows csv_text_def comp_def)
  moreover have "join (join donation_headers '','' # ?lines) [LF] =
                 (pre @ [LF] @ before) @ '','' @ designation don @ '','' @ (rest @ post)"
    by (simp add: j r)
  ultimately show ?thesis
    by (metis export_file.select_convs(2))
qed

text \<open>
  C10 as stated (\<^verbatim>\<open>escapeCSV\<close> is total over arbitrary values) fails: on an object whose
  conversion to a string throws, \<^verbatim>\<open>String(value)\<close> throws and so does \<^verbatim>\<open>escapeCSV\<close>.
\<close>

theorem escapeCSV_total_counterexample:
  "js_String example_builtins example_unprintable = Inl TypeError
   \<and> escapeCSV example_builtins example_unprintable = Inl TypeError"
  by (simp add: example_unprintable_def escapeCSV_def)

text \<open>
  C10, amended: \<^verbatim>\<open>escapeCSV\<close> returns the empty string for \<^verbatim>\<open>null\<close> and
  \<^verbatim>\<open>undefined\<close>; on every other value it returns exactly when \<^verbatim>\<open>String(value)\<close>
  returns (it throws only on an object whose conversion to a string throws), and then
  it returns the string form unquoted whenever that string has neither a comma nor a
  double quote. A field that is just a line feed comes back unquoted, and in the CSV
  text of an export a registration name or a donation designation with a line feed and
  no comma or quote stands between the separators as it is, with its line break bare.
\<close>

theorem escapeCSV_total:
  "escapeCSV b JNull = Inr [] \<and> escapeCSV b JUndefined = Inr []
   \<and> (\<forall>v str. v \<noteq> JNull \<and> v \<noteq> JUndefined \<and> js_String b v = Inr str \<and>
          COMMA \<notin> set str \<and> DQUOTE \<notin> set str \<longrightarrow> escapeCSV b v = Inr str)
   \<and> (\<forall>v. v \<noteq> JNull \<and> v \<noteq> JUndefined \<longrightarrow>
          (\<exists>r. escapeCSV b v = Inr r) = (\<exists>str. js_String b v = Inr str))
   \<and> (\<forall>v. (\<exists>str. js_String b v = Inr str) = (\<forall>e. v \<noteq> JObject (Inl e)))
   \<and> escapeCSV b (JStr [LF]) = Inr [LF]
   \<and> (\<forall>reg. reg \<in> set (registrations st) \<and> LF \<in> set (name reg) \<and>
          COMMA \<notin> set (name reg) \<and> DQUOTE \<notin> set (name reg) \<longrightarrow>
          (\<exists>f pre post. handleExportData ExportRegistrations b now st = Inr f \<and>
             csvContent f = pre @ [LF] @ name reg @ '','' @ post))
   \<and> (\<forall>don. don \<in> set (donations st) \<and> LF \<in> set (designation don) \<and>
          COMMA \<notin> set (designation don) \<and> DQUOTE \<notin> set (designation don) \<longrightarrow>
          (\<exists>f pre post. handleExportData ExportDonations b now st = Inr f \<and>
             csvContent f = pre @ '','' @ designation don @ '','' @ post))"
proof (intro conjI allI impI)
  show "escapeCSV b JNull = Inr []" and "escapeCSV b JUndefined = Inr []"
    by (simp_all add: escapeCSV_def)
  show "escapeCSV b (JStr [LF]) = Inr [LF]"
    by (simp add: escapeCSV_JStr)
next
  fix v str
  assume "v \<noteq> JNull \<and> v \<noteq> JUndefined \<and> js_String b v = Inr str \<and>
          COMMA \<notin> set str \<and> DQUOTE \<notin> set str"
  then show "escapeCSV b v = Inr str"
    by (simp add: escapeCSV_plain)
next
  fix v
  assume "v \<noteq> JNull \<and> v \<noteq> JUndefined"
  then show "(\<exists>r. escapeCSV b v = Inr r) = (\<exists>str. js_String b v = Inr str)"
    by (simp add: escapeCSV_returns_iff)
next
  fix v
  show "(\<exists>str. js_String b v = Inr str) = (\<forall>e. v \<noteq> JObject (Inl e))"
    by (rule js_String_returns_iff)
next
  fix reg
  assume "reg \<in> set (registrations st) \<and> LF \<in> set (name reg) \<and>
          COMMA \<notin> set (name reg) \<and> DQUOTE \<notin> set (name reg)"
  then have "reg \<in> set (registrations st)" and "COMMA \<notin> set (name reg)"
    and "DQUOTE \<notin> set (name reg)"
    by simp_all
  then show "\<exists>f pre post. handleExportData ExportRegistrations b now st = Inr f \<and>
             csvContent f = pre @ [LF] @ name reg @ '','' @ post"
    by (rule export_registration_name_bare)
next
  fix don
  assume "don \<in> set (donations st) \<and> LF \<in> set (designation don) \<and>
          COMMA \<notin> set (designation don) \<and> DQUOTE \<notin> set (designation don)"
  then have "don \<in> set (donations st)" and "COMMA \<notin> set (designation don)"
    and "DQUOTE \<notin> set (designation don)"
    by simp_all
  then show "\<exists>f pre post. handleExportData ExportDonations b now st = Inr f \<and>
             csvContent f = pre @ '','' @ designation don @ '','' @ post"
    by (rule export_donation_designation_bare)
qed

theorem escapeCSV_total_witness:
  "escapeCSV example_builtins (JNum (Finite 150)) = Inr ''150''
   \<and> escapeCSV example_builtins (JStr (''Ann'' @ [LF] @ ''Lee'')) = Inr (''Ann'' @ [LF] @ ''Lee'')
   \<and> (\<exists>f pre post.
         handleExportData ExportRegistrations example_builtins example_now
           example_multiline_dashboard = Inr f \<and>
         csvContent f = pre @ [LF] @ (''Ann'' @ [LF] @ ''Lee'') @ '','' @ post)
   \<and> (\<exists>f pre post.
         handleExportData ExportDonations example_builtins example_now
           example_multiline_dashboard = Inr f \<and>
         csvContent f = pre @ '','' @ (''Where'' @ [LF] @ ''Needed'') @ '','' @ post)
   \<and> length (registrations example_multiline_dashboard) = 2
   \<and> line_feeds (exported_text (handleExportData ExportRegistrations example_builtins
         example_now example_multiline_dashboard)) = 3"
proof -
  let ?reg = "example_pending_registration \<lparr> name := ''Ann'' @ [LF] @ ''Lee'' \<rparr>"
  let ?don = "example_completed_donation \<lparr> designation := ''Where'' @ [LF] @ ''Needed'' \<rparr>"
  note t = escapeCSV_total [where b = example_builtins and now = example_now
      and st = example_multiline_dashboard]
  have n: "js_String example_builtins (JNum (Finite 150)) = Inr ''150''"
    by code_simp
  have s: "js_String example_builtins (JStr (''Ann'' @ [LF] @ ''Lee'')) =
           Inr (''Ann'' @ [LF] @ ''Lee'')"
    by simp
  from t have
    t1: "\<forall>v str. v \<noteq> JNull \<and> v \<noteq> JUndefined \<and> js_String example_builtins v = Inr str \<and>
          COMMA \<notin> set str \<and> DQUOTE \<notin> set str \<longrightarrow> escapeCSV example_builtins v = Inr str" and
    t2: "\<forall>reg. reg \<in> set (registrations example_multiline_dashboard) \<and> LF \<in> set (name reg) \<and>
          COMMA \<notin> set (name reg) \<and> DQUOTE \<notin> set (name reg) \<longrightarrow>
          (\<exists>f pre post. handleExportData ExportRegistrations example_builtins example_now
               example_multiline_dashboard = Inr f \<and>
             csvContent f = pre @ [LF] @ name reg @ '','' @ post)" and
    t3: "\<forall>don. don \<in> set (donations example_multiline_dashboard) \<and>
          LF \<in> set (designation don) \<and>
          COMMA \<notin> set (designation don) \<and> DQUOTE \<notin> set (designation don) \<longrightarrow>
          (\<exists>f pre post. handleExportData ExportDonations example_builtins example_now
               example_multiline_dashboard = Inr f \<and>
             csvContent f = pre @ '','' @ designation don @ '','' @ post)"
    by blast+
  have a: "escapeCSV example_builtins (JNum (Finite 150)) = Inr ''150''"
    using t1 [rule_format, of "JNum (Finite 150)" "''150''"] n by simp
  have b: "escapeCSV example_builtins (JStr (''Ann'' @ [LF] @ ''Lee'')) =
           Inr (''Ann'' @ [LF] @ ''Lee'')"
    using t1 [rule_format, of "JStr (''Ann'' @ [LF] @ ''Lee'')" "''Ann'' @ [LF] @ ''Lee''"]
    by simp
  have c: "\<exists>f pre post.
         handleExportData ExportRegistrations example_builtins example_now
           example_multiline_dashboard = Inr f \<and>
         csvContent f = pre @ [LF] @ (''Ann'' @ [LF] @ ''Lee'') @ '','' @ post"
    using t2 [rule_format, of ?reg]
    by (simp add: example_multiline_dashboard_def)
  have d: "\<exists>f pre post.
         handleExportData ExportDonations example_builtins example_now
           example_multiline_dashboard = Inr f \<and>
         csvContent f = pre @ '','' @ (''Where'' @ [LF] @ ''Needed'') @ '','' @ post"
    using t3 [rule_format, of ?don]
    by (simp add: example_multiline_dashboard_def)
  have e: "length (registrations example_multiline_dashboard) = 2"
    by (simp add: example_multiline_dashboard_def)
  have f: "line_feeds (exported_text (handleExportData ExportRegistrations example_builtins
         example_now example_multiline_dashboard)) = 3"
    by code_simp
  show ?thesis
    by (intro conjI a b c d e f)
qed

section \<open>The transaction id of a payment status correction\<close>

text \<open>
  C4 as stated (the patch of \<^verbatim>\<open>updatePaymentStatus(id, 'paid')\<close> always carries a
  transaction id matching \<^verbatim>\<open>tx_[a-z0-9]{9}\<close>) fails: the random draw 0.5 renders in
  base 36 as \<^verbatim>\<open>0.i\<close>, and the transaction id is then \<^verbatim>\<open>tx_i\<close>, with one character
  after the prefix.
\<close>

theorem transaction_id_pattern_counterexample:
  "rp_transaction_id (updatePaymentStatus_data ''paid'' ''0.i'' example_now) = Some ''tx_i''
   \<and> \<not> matches_tx_pattern ''tx_i''"
  by (simp add: updatePaymentStatus_data_def substring_def matches_tx_pattern_def)

lemma take3_tx: "take 3 (''tx_'' @ t) = ''tx_''"
  by simp

text \<open>
  C4, amended: for every id, the patch of \<^verbatim>\<open>updatePaymentStatus(id, 'paid')\<close> carries a
  non-null transaction id, \<^verbatim>\<open>tx_\<close> followed by the characters at positions 2 to 10 of
  the base-36 rendering of the random draw: at most nine characters, and a match of
  \<^verbatim>\<open>tx_[a-z0-9]{9}\<close> exactly when the rendering has at least eleven characters and
  those nine are in \<^verbatim>\<open>[a-z0-9]\<close>. The patch of \<^verbatim>\<open>updatePaymentStatus(id, 'pending')\<close>
  carries the transaction id null.
\<close>

theorem updatePaymentStatus_data_transaction_id:
  "rp_transaction_id (updatePaymentStatus_data ''paid'' r now) =
     Some (''tx_'' @ take 9 (drop 2 r))
   \<and> length (take 9 (drop 2 r)) \<le> 9
   \<and> matches_tx_pattern (''tx_'' @ take 9 (drop 2 r)) =
       (11 \<le> length r \<and>
        list_all (\<lambda>c. c \<in> set ''abcdefghijklmnopqrstuvwxyz0123456789'') (take 9 (drop 2 r)))
   \<and> rp_transaction_id (updatePaymentStatus_data ''pending'' r now) = None"
proof -
  have a: "rp_transaction_id (updatePaymentStatus_data ''paid'' r now) =
     Some (''tx_'' @ take 9 (drop 2 r))"
    by (simp add: updatePaymentStatus_data_def substring_def)
  have b: "rp_transaction_id (updatePaymentStatus_data ''pending'' r now) = None"
    by (simp add: updatePaymentStatus_data_def)
  have l: "(length (''tx_'' @ take 9 (drop 2 r)) = 12) = (11 \<le> length r)"
    by (simp add: min_def) arith
  have d: "drop 3 (''tx_'' @ take 9 (drop 2 r)) = take 9 (drop 2 r)"
    by simp
  have c: "matches_tx_pattern (''tx_'' @ take 9 (drop 2 r)) =
       (11 \<le> length r \<and>
        list_all (\<lambda>c. c \<in> set ''abcdefghijklmnopqrstuvwxyz0123456789'') (take 9 (drop 2 r)))"
    unfolding matches_tx_pattern_def by (simp only: take3_tx l d) simp
  show ?thesis
    by (intro conjI a b c) simp
qed

theorem updatePaymentStatus_data_transaction_id_witness:
  "rp_transaction_id (updatePaymentStatus_data ''paid'' ''0.k3j9x0q2abc'' example_now) =
     Some ''tx_k3j9x0q2a''
   \<and> matches_tx_pattern ''tx_k3j9x0q2a''
   \<and> rp_transaction_id (updatePaymentStatus_data ''pending'' ''0.k3j9x0q2abc'' example_now) = None"
  using updatePaymentStatus_data_transaction_id [of "''0.k3j9x0q2abc''" example_now]
  by simp

section \<open>A failed load\<close>

lemma fetchData_registrations:
  "registrations (fetchData env st) =
     (if request_failed (registrations_read env) then registrations st
      else reloaded_registrations env)"
  by (simp add: fetchData_def fetchData_try_def request_failed_def reloaded_registrations_def
      emit_def Let_def split: settled.splits option.splits)

lemma fetchData_donations_on_failure:
  "request_failed (registrations_read env) \<or> request_failed (donations_read env) \<Longrightarrow>
   donations (fetchData env st) = donations st \<and> statsData (fetchData env st) = statsData st"
  by (auto simp: fetchData_def fetchData_try_def request_failed_def emit_def Let_def
      split: settled.splits option.splits)

lemma fetchData_toast_on_failure:
  "request_failed (registrations_read env) \<or> request_failed (donations_read env) \<Longrightarrow>
   last (effects (fetchData env st)) =
     ToastError ''Failed to load data'' (Some ''Please try again or contact support'')"
  by (auto simp: fetchData_def fetchData_try_def request_failed_def emit_def Let_def
      split: settled.splits option.splits)

text \<open>
  C6 as stated (a failed read leaves both lists untouched) fails: when the registrations
  read succeeds and the donations read fails, the registrations list has already been
  replaced by the rows just read.
\<close>

theorem failed_load_counterexample:
  "request_failed (donations_read example_failing_reload)
   \<and> registrations example_dashboard = [example_pending_registration, example_paid_registration]
   \<and> registrations (fetchData example_failing_reload example_dashboard) =
       [example_paid_registration]"
  by (simp add: fetchData_registrations example_failing_reload_def example_dashboard_def
      request_failed_def reloaded_registrations_def store_error_def)

text \<open>
  C6, amended: for every dashboard load in which the registrations read or the donations
  read fails, a toast notification is surfaced, and the donations list and the
  statistics are left untouched. The registrations list is left untouched when the
  registrations read fails; when that read succeeds and the donations read fails, the
  registrations list is the rows just read.
\<close>

theorem failed_load_state:
  assumes "request_failed (registrations_read env) \<or> request_failed (donations_read env)"
  shows "last (effects (fetchData env st)) =
           ToastError ''Failed to load data'' (Some ''Please try again or contact support'')
         \<and> donations (fetchData env st) = donations st
         \<and> statsData (fetchData env st) = statsData st
         \<and> registrations (fetchData env st) =
             (if request_failed (registrations_read env) then registrations st
              else reloaded_registrations env)"
  using assms fetchData_registrations fetchData_donations_on_failure fetchData_toast_on_failure
  by blast

theorem failed_load_state_witness:
  "request_failed (donations_read example_failing_reload)
   \<and> last (effects (fetchData example_failing_reload example_dashboard)) =
       ToastError ''Failed to load data'' (Some ''Please try again or contact support'')
   \<and> donations (fetchData example_failing_reload example_dashboard) =
       donations example_dashboard
   \<and> statsData (fetchData example_failing_reload example_dashboard) =
       statsData example_dashboard"
proof -
  have f: "request_failed (donations_read example_failing_reload)"
    by (simp add: example_failing_reload_def request_failed_def store_error_def)
  then have "request_failed (registrations_read example_failing_reload) \<or>
             request_failed (donations_read example_failing_reload)"
    by simp
  from failed_load_state [OF this, of example_dashboard] f show ?thesis
    by blast
qed

section \<open>A failed status correction\<close>

lemma handleUpdatePaymentStatus_failed:
  "request_failed u \<Longrightarrow>
   handleUpdatePaymentStatus rid s r now u reload st =
     st\<lparr>effects := effects st @
           [ConsoleError ''Error updating payment status:'',
            ToastError ''Failed to update payment status'' None]\<rparr>"
  by (cases u) (auto simp: handleUpdatePaymentStatus_def request_failed_def emit_def Let_def)

lemma handleUpdateDonationStatus_failed:
  "request_failed u \<Longrightarrow>
   handleUpdateDonationStatus did s now u reload st =
     st\<lparr>effects := effects st @
           [ConsoleError ''Error updating donation status:'',
            ToastError ''Failed to update donation status'' None]\<rparr>"
  by (cases u) (auto simp: handleUpdateDonationStatus_def request_failed_def emit_def Let_def)

text \<open>
  C5 as stated (after a failed update the local list reflects the attempted new status)
  fails: the store refuses to mark registration \<^verbatim>\<open>r1\<close> paid and donation \<^verbatim>\<open>d2\<close>
  completed, and both stay pending in the local lists.
\<close>

theorem failed_update_counterexample:
  "request_failed (store_error :: unit response settled)
   \<and> map payment_status (registrations example_dashboard) = [''pending'', ''paid'']
   \<and> map payment_status
       (registrations (handleUpdatePaymentStatus ''r1'' ''paid'' ''0.k3j9x0q2abc'' example_now
          store_error example_reload example_dashboard)) = [''pending'', ''paid'']
   \<and> map status (donations example_dashboard) = [''pending'', ''completed'']
   \<and> map status
       (donations (handleUpdateDonationStatus ''d2'' ''completed'' example_now
          store_error example_reload example_dashboard)) = [''pending'', ''completed'']"
proof -
  have f: "request_failed (store_error :: unit response settled)"
    by (simp add: request_failed_def store_error_def)
  have a: "map payment_status (registrations example_dashboard) = [''pending'', ''paid'']"
    by (simp add: example_dashboard_def example_pending_registration_def
        example_paid_registration_def)
  have b: "map status (donations example_dashboard) = [''pending'', ''completed'']"
    by (simp add: example_dashboard_def example_pending_donation_def
        example_completed_donation_def)
  show ?thesis
    by (simp add: handleUpdatePaymentStatus_failed [OF f] handleUpdateDonationStatus_failed [OF f]
        f a b)
qed

text \<open>
  C5, amended: for every call to \<^verbatim>\<open>updatePaymentStatus\<close> or \<^verbatim>\<open>updateDonationStatus\<close>
  whose store update fails, the error is logged and an error toast is shown, and nothing
  else of the state changes: the local lists are as they were before the call (no local
  patch is applied, no reload is started).
\<close>

theorem failed_update_leaves_lists:
  assumes "request_failed u"
  shows "handleUpdatePaymentStatus rid s r now u reload st =
           st\<lparr>effects := effects st @
                 [ConsoleError ''Error updating payment status:'',
                  ToastError ''Failed to update payment status'' None]\<rparr>
         \<and> registrations (handleUpdatePaymentStatus rid s r now u reload st) = registrations st
         \<and> handleUpdateDonationStatus did ds now u reload st =
           st\<lparr>effects := effects st @
                 [ConsoleError ''Error updating donation status:'',
                  ToastError ''Failed to update donation status'' None]\<rparr>
         \<and> donations (handleUpdateDonationStatus did ds now u reload st) = donations st"
  using assms
  by (simp add: handleUpdatePaymentStatus_failed handleUpdateDonationStatus_failed)

theorem failed_update_leaves_lists_witness:
  "request_failed (store_error :: unit response settled)
   \<and> registrations (handleUpdatePaymentStatus ''r1'' ''paid'' ''0.k3j9x0q2abc'' example_now
        store_error example_reload example_dashboard) = registrations example_dashboard
   \<and> donations (handleUpdateDonationStatus ''d2'' ''completed'' example_now
        store_error example_reload example_dashboard) = donations example_dashboard"
proof -
  have f: "request_failed (store_error :: unit response settled)"
    by (simp add: request_failed_def store_error_def)
  from failed_update_leaves_lists [OF f, where rid = "''r1''" and s = "''paid''"
      and r = "''0.k3j9x0q2abc''" and now = example_now and reload = example_reload
      and st = example_dashboard and did = "''d2''" and ds = "''completed''"] f
  show ?thesis
    by blast
qed

section \<open>The transaction id invariant\<close>

lemma spread_registration_invariant:
  "registration_invariant (spread_registration reg (updatePaymentStatus_data s r now))"
  by (simp add: registration_invariant_def spread_registration_def updatePaymentStatus_data_def)

lemma patched_list_invariant:
  "list_all registration_invariant regs \<Longrightarrow>
   list_all registration_invariant
     (map (\<lambda>reg. if reg_id reg = rid
                 then spread_registration reg (updatePaymentStatus_data s r now) else reg) regs)"
  by (induction regs) (simp_all add: spread_registration_invariant)

lemma handleUpdatePaymentStatus_registrations:
  "registrations (handleUpdatePaymentStatus rid s r now u reload st) =
     (if request_failed u then registrations st
      else if request_failed (registrations_read reload)
      then map (\<lambda>reg. if reg_id reg = rid
                 then spread_registration reg (updatePaymentStatus_data s r now) else reg)
             (registrations st)
      else reloaded_registrations reload)"
  by (cases u)
    (auto simp: handleUpdatePaymentStatus_def request_failed_def emit_def Let_def
      fetchData_registrations)

lemma run_call_invariant:
  assumes "list_all registration_invariant (registrations st)"
      and "list_all registration_invariant (reloaded_registrations (call_reload c))"
  shows "list_all registration_invariant (registrations (run_call st c))"
  using assms
  by (simp add: run_call_def handleUpdatePaymentStatus_registrations patched_list_invariant)

lemma run_calls_invariant:
  "list_all registration_invariant (registrations st) \<Longrightarrow>
   list_all (\<lambda>c. list_all registration_invariant (reloaded_registrations (call_reload c))) calls \<Longrightarrow>
   list_all registration_invariant (registrations (foldl run_call st calls))"
proof (induction calls arbitrary: st)
  case Nil
  then show ?case by simp
next
  case (Cons c calls)
  from Cons.prems have "list_all registration_invariant (registrations (run_call st c))"
    by (simp add: run_call_invariant)
  with Cons show ?case by simp
qed

text \<open>
  C7: after any sequence of \<^verbatim>\<open>updatePaymentStatus\<close> calls, starting from local
  registrations that satisfy the invariant (a transaction id only on a paid record), and
  with reloads that bring in rows satisfying it, every local registration still satisfies
  it. The patch itself establishes the invariant on any record it is applied to: its
  transaction id is non-null exactly when the new status is \<^verbatim>\<open>paid\<close>.
\<close>

theorem updatePaymentStatus_keeps_invariant:
  assumes "list_all registration_invariant (registrations st)"
      and "list_all (\<lambda>c. list_all registration_invariant
                          (reloaded_registrations (call_reload c))) calls"
  shows "list_all registration_invariant (registrations (foldl run_call st calls))
         \<and> registration_invariant (spread_registration reg (updatePaymentStatus_data s r now))
         \<and> (transaction_id (spread_registration reg (updatePaymentStatus_data s r now)) \<noteq> None)
             = (s = ''paid'')"
proof -
  have "(transaction_id (spread_registration reg (updatePaymentStatus_data s r now)) \<noteq> None)
             = (s = ''paid'')"
    by (simp add: spread_registration_def updatePaymentStatus_data_def)
  with assms show ?thesis
    by (simp add: run_calls_invariant spread_registration_invariant)
qed

theorem updatePaymentStatus_keeps_invariant_witness:
  "list_all registration_invariant (registrations example_dashboard)
   \<and> list_all registration_invariant (registrations (foldl run_call example_dashboard example_calls))
   \<and> map (\<lambda>reg. (reg_id reg, payment_status reg, transaction_id reg))
       (registrations (foldl run_call example_dashboard example_calls)) =
       [(''r1'', ''paid'', Some ''tx_k3j9x0q2a''), (''r2'', ''paid'', Some ''tx_9f8e7d6c5'')]"
proof -
  have h1: "list_all registration_invariant (registrations example_dashboard)"
    by code_simp
  have h2: "list_all (\<lambda>c. list_all registration_invariant
                          (reloaded_registrations (call_reload c))) example_calls"
    by code_simp
  have v: "map (\<lambda>reg. (reg_id reg, payment_status reg, transaction_id reg))
       (registrations (foldl run_call example_dashboard example_calls)) =
       [(''r1'', ''paid'', Some ''tx_k3j9x0q2a''), (''r2'', ''paid'', Some ''tx_9f8e7d6c5'')]"
    by code_simp
  from updatePaymentStatus_keeps_invariant [OF h1 h2] h1 v show ?thesis
    by blast
qed

section \<open>A donation whose insert fails after the payment\<close>

lemma onSubmit_insert_error:
  assumes "stripe_ready env" and "payment_intent env = Resolved secret"
      and "cardElement_found env"
      and "confirm env = Resolved \<lparr> confirm_error = None, paymentIntent = Some pid \<rparr>"
      and "insert_result env = Resolved r" and "error r \<noteq> None"
  shows "onSubmit env now d =
     [SetIsProcessingPayment True,
      CreatePaymentIntent (js_mul (form_amount d) (Finite 100))
        (''Donation to Tulip Kids Foundation - '' @
         (case form_designation d of None \<Rightarrow> ''General'' | Some g \<Rightarrow> or_str g ''General'')),
      ConfirmCardPayment secret (firstName d @ '' '' @ lastName d) (email d),
      InsertDonation
        \<lparr> ins_first_name = firstName d, ins_last_name = lastName d, ins_email = email d,
          ins_amount = form_amount d, ins_designation = form_designation d,
          ins_is_anonymous = (case isAnonymous d of None \<Rightarrow> False | Some b \<Rightarrow> b),
          ins_payment_id = pid, ins_donation_type = ''Website Donation'',
          ins_status = ''completed'', ins_created_at = now \<rparr>,
      Notify (ConsoleError ''Database error:''),
      Notify (ToastSuccess ''Donation successful!''
                (Some ''Thank you for your generous support.'')),
      Navigate ''/donation-success''
        \<lparr> nav_donationData =
            \<lparr> nav_name = firstName d @ '' '' @ lastName d, nav_email = email d,
              nav_amount = form_amount d, nav_designation = form_designation d,
              nav_isAnonymous = (case isAnonymous d of None \<Rightarrow> False | Some b \<Rightarrow> b) \<rparr>,
          transactionId = pid \<rparr>,
      SetIsProcessingPayment False]"
  using assms by (simp add: onSubmit_def onSubmit_try_def Let_def)

text \<open>
  C2: for every submission in which the payment confirmation succeeds and the insert
  returns an error, the flow navigates to the confirmation view with the donor's
  displayable fields and the payment reference id, no error toast is shown, and the only
  trace of the insert error is the \<^verbatim>\<open>console.error\<close> line.
\<close>

theorem insert_failure_still_navigates:
  assumes "stripe_ready env" and "payment_intent env = Resolved secret"
      and "cardElement_found env"
      and "confirm env = Resolved \<lparr> confirm_error = None, paymentIntent = Some pid \<rparr>"
      and "insert_result env = Resolved r" and "error r \<noteq> None"
  shows "Navigate ''/donation-success''
           \<lparr> nav_donationData =
               \<lparr> nav_name = firstName d @ '' '' @ lastName d, nav_email = email d,
                 nav_amount = form_amount d, nav_designation = form_designation d,
                 nav_isAnonymous = (case isAnonymous d of None \<Rightarrow> False | Some b \<Rightarrow> b) \<rparr>,
             transactionId = pid \<rparr> \<in> set (onSubmit env now d)
         \<and> filter is_ToastError (notifications (onSubmit env now d)) = []
         \<and> notifications (onSubmit env now d) =
             [ConsoleError ''Database error:'',
              ToastSuccess ''Donation successful!''
                (Some ''Thank you for your generous support.'')]"
  by (simp add: onSubmit_insert_error [OF assms])

theorem insert_failure_still_navigates_witness:
  "Navigate ''/donation-success''
     \<lparr> nav_donationData =
         \<lparr> nav_name = ''Ann Lee'', nav_email = ''ann@example.org'', nav_amount = Finite 50,
           nav_designation = Some ''Where Needed Most'', nav_isAnonymous = False \<rparr>,
       transactionId = ''pi_123'' \<rparr>
     \<in> set (onSubmit example_insert_fails example_now example_form_data)
   \<and> notifications (onSubmit example_insert_fails example_now example_form_data) =
       [ConsoleError ''Database error:'',
        ToastSuccess ''Donation successful!'' (Some ''Thank you for your generous support.'')]"
proof -
  have h1: "stripe_ready example_insert_fails"
    and h2: "payment_intent example_insert_fails = Resolved ''secret_1''"
    and h3: "cardElement_found example_insert_fails"
    and h4: "confirm example_insert_fails =
             Resolved \<lparr> confirm_error = None, paymentIntent = Some ''pi_123'' \<rparr>"
    and h5: "insert_result example_insert_fails =
             Resolved \<lparr> data = None, error = Some ''permission denied'' \<rparr>"
    by (simp_all add: example_insert_fails_def store_error_def)
  have h6: "error \<lparr> data = None :: unit option, error = Some ''permission denied'' \<rparr> \<noteq> None"
    by simp
  from insert_failure_still_navigates [OF h1 h2 h3 h4 h5 h6, of example_form_data example_now]
  show ?thesis
    by (simp add: example_form_data_def)
qed

end
